theory Spec2Isabelle
  imports Main
begin

section \<open>Faults of the Go runtime\<close>

text \<open>
  A Go panic, or a goroutine that can never proceed, ends the computation without a
  result.  Every operation of the model that can end this way returns
  \<open>fault + 'a\<close>, with \<open>Inl\<close> the fault.
\<close>

datatype fault = IndexOutOfRange | NilDereference | BlocksForever | SerializerClosed

section \<open>Path normalizer (ftp/session/session.go)\<close>

text \<open>\<open>strings.Split(s, sep)\<close> for a separator of one byte: \<open>n\<close> separators give
  \<open>n + 1\<close> pieces, and the empty string gives one empty piece.\<close>

fun Split :: "string \<Rightarrow> char \<Rightarrow> string list" where
  "Split [] sep = [[]]"
| "Split (c # cs) sep =
     (if c = sep then [] # Split cs sep
      else (case Split cs sep of [] \<Rightarrow> [[c]] | p # ps \<Rightarrow> (c # p) # ps))"

text \<open>\<open>strings.Join(elems, sep)\<close>.\<close>

fun Join :: "string list \<Rightarrow> string \<Rightarrow> string" where
  "Join [] sep = []"
| "Join [x] sep = x"
| "Join (x # y # ys) sep = x @ sep @ Join (y # ys) sep"

text \<open>
  The second loop of \<open>splitAndClearPath\<close>:
  \<^verbatim>\<open>for i := 0; i < len(toks)-1; i++ {
      if toks[i+1] == ".." { i++; continue }
      tmp = append(tmp, toks[i]) }\<close>
  with the index \<open>i\<close> and the slice \<open>tmp\<close> as arguments.
\<close>

function clear_loop :: "string list \<Rightarrow> nat \<Rightarrow> string list \<Rightarrow> string list" where
  "clear_loop toks i tmp =
     (if i + 1 < length toks
      then (if toks ! (i + 1) = ''..'' then clear_loop toks (i + 2) tmp
            else clear_loop toks (i + 1) (tmp @ [toks ! i]))
      else tmp)"
  by pat_completeness auto
termination
  by (relation "measure (\<lambda>(toks, i, tmp). length toks - i)") auto

declare clear_loop.simps [simp del]

definition splitAndClearPath :: "string \<Rightarrow> string list" where
  "splitAndClearPath s =
     (let toks = filter (\<lambda>item. item \<noteq> '''') (Split s (CHR ''/''));
          tmp = clear_loop toks 0 []
      in if length toks > 0 \<and> toks ! (length toks - 1) \<noteq> ''..''
         then tmp @ [toks ! (length toks - 1)]
         else tmp)"

text \<open>\<open>clearPath\<close> reads \<open>s[0]\<close> after the join, which panics on the empty string.\<close>

definition clearPath :: "string \<Rightarrow> fault + string" where
  "clearPath s =
     (if s = ''..'' then Inr s
      else let p = Join (splitAndClearPath s) ''/''
           in (case s of
                 [] \<Rightarrow> Inl IndexOutOfRange
               | c # _ \<Rightarrow>
                   if c = CHR ''/'' then Inr (''/'' @ p)
                   else if p = '''' then Inr ''/''
                   else Inr p))"

text \<open>Auxiliary list functions used to reason about the loop above: \<open>pairs\<close> is
  the loop as a structural recursion, \<open>collapse\<close> the loop followed by the final
  \<open>if\<close> of \<open>splitAndClearPath\<close>.\<close>

fun pairs :: "string list \<Rightarrow> string list" where
  "pairs (x # y # r) = (if y = ''..'' then pairs r else x # pairs (y # r))"
| "pairs [x] = []"
| "pairs [] = []"

fun collapse :: "string list \<Rightarrow> string list" where
  "collapse (x # y # r) = (if y = ''..'' then collapse r else x # collapse (y # r))"
| "collapse [x] = (if x \<noteq> ''..'' then [x] else [])"
| "collapse [] = []"

text \<open>The non-empty pieces of a path (the first loop of \<open>splitAndClearPath\<close>), and
  the property that every \<open>..\<close> piece comes directly after a piece that is not \<open>..\<close>.\<close>

definition segments :: "string \<Rightarrow> string list" where
  "segments s = filter (\<lambda>item. item \<noteq> '''') (Split s (CHR ''/''))"

definition dotdot_follows_name :: "string list \<Rightarrow> bool" where
  "dotdot_follows_name ts =
     list_all (\<lambda>i. ts ! i = ''..'' \<longrightarrow> 0 < i \<and> ts ! (i - 1) \<noteq> ''..'') [0..<length ts]"

section \<open>Formatting helpers (\<open>fmt.Sprintf\<close> verbs used by the server)\<close>

definition CRLF :: string where
  "CRLF = [CHR 0x0D, CHR 0x0A]"

definition digit_char :: "nat \<Rightarrow> char" where
  "digit_char d = ''0123456789'' ! d"

function digits :: "nat \<Rightarrow> string" where
  "digits n = (if n < 10 then [digit_char n] else digits (n div 10) @ [digit_char (n mod 10)])"
  by pat_completeness auto
termination
  by (relation "measure id") auto

declare digits.simps [simp del]

text \<open>\<open>%d\<close>\<close>

definition itoa :: "int \<Rightarrow> string" where
  "itoa i = (if i < 0 then CHR ''-'' # digits (nat (- i)) else digits (nat i))"

text \<open>\<open>%-10s\<close> and \<open>%10d\<close>: padding with spaces up to a width, never truncating.\<close>

definition pad_right :: "nat \<Rightarrow> string \<Rightarrow> string" where
  "pad_right w x = x @ replicate (w - length x) (CHR '' '')"

definition pad_left :: "nat \<Rightarrow> string \<Rightarrow> string" where
  "pad_left w x = replicate (w - length x) (CHR '' '') @ x"

text \<open>Sequencing of computations that may end in a fault.\<close>

fun thenF :: "fault + 'a \<Rightarrow> ('a \<Rightarrow> fault + 'b) \<Rightarrow> fault + 'b" where
  "thenF (Inl e) f = Inl e"
| "thenF (Inr a) f = f a"

section \<open>Identity (identity/basic)\<close>

record basicIdentity =
  username :: string
  isAuthenticated :: bool

section \<open>Port assigner (ftp/portassigner)\<close>

text \<open>
  \<open>closed\<close> stands for the state of the serializer \<open>handler\<close>: once it is closed,
  \<open>Serialize\<close> panics (portassigner tests, \<open>TestClose\<close>).
\<close>

record paService =
  minPASVPort :: int
  maxPASVPort :: int
  cAssigned :: "bool list"
  free :: int
  closed :: bool

definition portassigner_New :: "int \<Rightarrow> int \<Rightarrow> paService" where
  "portassigner_New minP maxP =
     \<lparr>minPASVPort = minP, maxPASVPort = maxP,
      cAssigned = replicate (nat (maxP - minP)) False,
      free = maxP - minP, closed = False\<rparr>"

text \<open>
  \<open>AssignPort\<close>: the first slot that is not in use and whose port passes the probe
  \<open>net.Listen\<close> (the parameter \<open>listen\<close>: \<open>None\<close> when the bind succeeds, the error text
  otherwise).  The result is the pair \<open>(port, err)\<close> of the Go function as a sum.
\<close>

definition AssignPort :: "(int \<Rightarrow> string option) \<Rightarrow> paService \<Rightarrow> fault + ((string + int) \<times> paService)" where
  "AssignPort listen P =
     (if closed P then Inl SerializerClosed
      else (case find (\<lambda>i. \<not> cAssigned P ! i \<and> listen (int i + minPASVPort P) = None)
                      [0..<length (cAssigned P)] of
              None \<Rightarrow> Inr (Inl ''no more ports available'', P)
            | Some i \<Rightarrow>
                Inr (Inr (int i + minPASVPort P),
                     P\<lparr>cAssigned := (cAssigned P)[i := True], free := free P - 1\<rparr>)))"

text \<open>\<open>ReleasePort\<close> writes \<open>cAssigned[port - minPASVPort]\<close> without a range check
  and increments \<open>free\<close>.\<close>

definition ReleasePort :: "int \<Rightarrow> paService \<Rightarrow> fault + paService" where
  "ReleasePort p P =
     (if closed P then Inl SerializerClosed
      else if p - minPASVPort P < 0 \<or> int (length (cAssigned P)) \<le> p - minPASVPort P
           then Inl IndexOutOfRange
      else Inr (P\<lparr>cAssigned := (cAssigned P)[nat (p - minPASVPort P) := False],
                  free := free P + 1\<rparr>))"

definition portassigner_Close :: "paService \<Rightarrow> fault + paService" where
  "portassigner_Close P = (if closed P then Inl SerializerClosed else Inr (P\<lparr>closed := True\<rparr>))"

section \<open>Data channel (ftp/datachannel)\<close>

text \<open>
  The sockets are modelled by whether the field is non-nil, the certificate by whether
  it is configured, \<open>fncChan\<close> by whether the channel has been made, and the buffered
  \<open>killChan\<close> (capacity 100) by the number of values waiting in it.  The port assigner
  the channel points to is passed to the operations that use it.
\<close>

record dataChannel =
  dc_cert :: bool
  port :: int
  listener :: bool
  connection :: bool
  secureConnection :: bool
  encrypted :: bool
  fncChan :: bool
  killChan :: nat

definition datachannel_New ::
  "(int \<Rightarrow> string option) \<Rightarrow> paService \<Rightarrow> bool \<Rightarrow> bool \<Rightarrow> fault + ((string + dataChannel) \<times> paService)" where
  "datachannel_New listen P crt enc =
     thenF (AssignPort listen P) (\<lambda>(r, P').
       case r of
         Inl err \<Rightarrow> Inr (Inl err, P')
       | Inr p \<Rightarrow>
           Inr (Inr \<lparr>dc_cert = crt, port = p, listener = False, connection = False,
                     secureConnection = False, encrypted = enc, fncChan = False,
                     killChan = 0\<rparr>, P'))"

definition Port :: "dataChannel \<Rightarrow> int" where
  "Port dc = port dc"

definition IsClosed :: "dataChannel \<Rightarrow> bool" where
  "IsClosed dc = (port dc = 0)"

definition SetEncrypted :: "bool \<Rightarrow> dataChannel \<Rightarrow> dataChannel" where
  "SetEncrypted encrypt dc = dc\<lparr>encrypted := encrypt\<rparr>"

definition ToPASVStringPort :: "dataChannel \<Rightarrow> string" where
  "ToPASVStringPort dc =
     (let iHigh = port dc div 256;
          iLow = port dc - iHigh * 256
      in itoa iHigh @ '','' @ itoa iLow)"

text \<open>\<open>Open\<close>: bind the listener, make \<open>fncChan\<close>, start the goroutine.
  The result is the error of the Go function and the channel.\<close>

definition Open :: "(int \<Rightarrow> string option) \<Rightarrow> dataChannel \<Rightarrow> string option \<times> dataChannel" where
  "Open listen dc =
     (case listen (port dc) of
        Some err \<Rightarrow> (Some err, dc)
      | None \<Rightarrow> (None, dc\<lparr>listener := True, fncChan := True\<rparr>))"

text \<open>
  \<open>Close\<close>: the send on \<open>killChan\<close> blocks when 100 values are waiting; then the
  three sockets are closed and set to nil; then the port is released when
  \<open>dc.port != 0\<close>.  The field \<open>port\<close> is not assigned.
\<close>

definition dataChannel_Close :: "dataChannel \<Rightarrow> paService \<Rightarrow> fault + (dataChannel \<times> paService)" where
  "dataChannel_Close dc P =
     (if 100 \<le> killChan dc then Inl BlocksForever
      else let dc1 = dc\<lparr>killChan := killChan dc + 1, secureConnection := False,
                         connection := False, listener := False\<rparr>
           in if port dc1 \<noteq> 0
              then thenF (ReleasePort (port dc1) P) (\<lambda>P'. Inr (dc1, P'))
              else Inr (dc1, P))"

section \<open>The environment of a session\<close>

text \<open>
  What a session calls and this repository's session code does not define is a
  parameter of the model: the file provider and its files (the interfaces of package
  \<open>fs\<close>, over a provider state \<open>'fs\<close> and file handles \<open>'f\<close>), the operating system's
  sockets, the client of the data connection, and the functions of the Go library whose
  result depends on Unicode tables or on the clock.  An \<open>error\<close> is its message.

  \<^item> \<open>file_Date\<close> is the date column of a LIST line, which the code computes from
    \<open>time.Now()\<close> and \<open>ModTime()\<close>.
  \<^item> \<open>retr_transfer\<close>, \<open>stor_transfer\<close> and \<open>data_Write\<close> are the outcome of the copy
    loops over the data connection.
  \<^item> \<open>net_Listen\<close> is \<open>net.Listen("tcp", ":port")\<close>; \<open>client_connects\<close> says whether
    \<open>Accept\<close> on the port returns a connection; \<open>select_takes_kill\<close> is the choice
    of \<open>select\<close> when both of its cases are ready.
  \<^item> \<open>Sscanf_verbs\<close> is \<open>fmt.Sscanf("%d", format, &lastREST)\<close> for a format that begins
    with \<open>%\<close>, a space or a byte outside ASCII: the error and the value stored, if any.
\<close>

datatype transfer = OpenFailed string | Completed | Aborted

record ('fs, 'f) env =
  fp_CurrentDirectory :: "'fs \<Rightarrow> fault + string"
  fp_ChangeDirectory :: "string \<Rightarrow> 'fs \<Rightarrow> fault + (string option \<times> 'fs)"
  fp_List :: "'fs \<Rightarrow> fault + (string + 'f list)"
  fp_Get :: "string \<Rightarrow> 'fs \<Rightarrow> fault + (string + 'f)"
  fp_New :: "string \<Rightarrow> bool \<Rightarrow> 'fs \<Rightarrow> fault + ((string + 'f) \<times> 'fs)"
  fp_CreateDirectory :: "string \<Rightarrow> 'fs \<Rightarrow> fault + (string option \<times> 'fs)"
  fp_RemoveDirectory :: "string \<Rightarrow> 'fs \<Rightarrow> fault + (string option \<times> 'fs)"
  file_Name :: "'f \<Rightarrow> string"
  file_FullPath :: "'f \<Rightarrow> string"
  file_Size :: "'f \<Rightarrow> int"
  file_Mode :: "'f \<Rightarrow> string"
  file_Date :: "'f \<Rightarrow> string"
  file_Delete :: "'f \<Rightarrow> 'fs \<Rightarrow> fault + (string option \<times> 'fs)"
  retr_transfer :: "'f \<Rightarrow> int \<Rightarrow> transfer"
  stor_transfer :: "'f \<Rightarrow> 'fs \<Rightarrow> transfer \<times> 'fs"
  data_Write :: "string \<Rightarrow> string option"
  net_Listen :: "int \<Rightarrow> string option"
  client_connects :: "int \<Rightarrow> bool"
  select_takes_kill :: bool
  getLocalIP :: "string + string"
  strings_ToLower :: "string \<Rightarrow> string"
  strings_ToUpper :: "string \<Rightarrow> string"
  Sscanf_verbs :: "string \<Rightarrow> string option \<times> int option"

section \<open>Session (ftp/session/session.go)\<close>

text \<open>
  The control connection \<open>conn\<close> is \<open>conn_secure\<close> (\<open>IsSecure()\<close>) and \<open>conn_out\<close>, the
  statements written to it so far, oldest first.  \<open>ses_id\<close> is the field \<open>id\<close>, \<open>pa\<close>
  is the port assigner the session points to.  The clock fields are left out.
\<close>

record 'fs Session =
  conn_secure :: bool
  conn_out :: "string list"
  cert :: bool
  ses_id :: basicIdentity
  pa :: paService
  lastDataChanneler :: "dataChannel option"
  authFunc :: "string \<Rightarrow> string \<Rightarrow> bool"
  fileProvider :: "'fs"
  dataChannelEncryption :: bool
  lastREST :: int

text \<open>The command constants (\<open>USER = 0 + iota\<close>, ...), which index \<open>commands\<close>.\<close>

definition cmd_USER :: nat where
  "cmd_USER = 0"

definition cmd_PASS :: nat where
  "cmd_PASS = 1"

definition cmd_PWD :: nat where
  "cmd_PWD = 2"

definition cmd_TYPE :: nat where
  "cmd_TYPE = 3"

definition cmd_PASV :: nat where
  "cmd_PASV = 4"

definition cmd_EPSV :: nat where
  "cmd_EPSV = 5"

definition cmd_LIST :: nat where
  "cmd_LIST = 6"

definition cmd_SYST :: nat where
  "cmd_SYST = 7"

definition cmd_CWD :: nat where
  "cmd_CWD = 8"

definition cmd_CDUP :: nat where
  "cmd_CDUP = 9"

definition cmd_SIZE :: nat where
  "cmd_SIZE = 10"

definition cmd_RETR :: nat where
  "cmd_RETR = 11"

definition cmd_STOR :: nat where
  "cmd_STOR = 12"

definition cmd_DELE :: nat where
  "cmd_DELE = 13"

definition cmd_FEAT :: nat where
  "cmd_FEAT = 14"

definition cmd_QUIT :: nat where
  "cmd_QUIT = 15"

definition cmd_NOOP :: nat where
  "cmd_NOOP = 16"

definition cmd_MKD :: nat where
  "cmd_MKD = 17"

definition cmd_RMD :: nat where
  "cmd_RMD = 18"

definition cmd_REST :: nat where
  "cmd_REST = 19"

definition cmd_NLST :: nat where
  "cmd_NLST = 20"

definition commands :: "string list" where
  "commands = [''USER'', ''PASS'', ''PWD'', ''TYPE'', ''PASV'', ''EPSV'', ''LIST'', ''SYST'',
     ''CWD'', ''CDUP'', ''SIZE'', ''RETR'', ''STOR'', ''DELE'', ''FEAT'', ''QUIT'', ''NOOP'',
     ''MKD'', ''RMD'', ''REST'', ''NLST'']"

definition session_New ::
  "bool \<Rightarrow> bool \<Rightarrow> paService \<Rightarrow> (string \<Rightarrow> string \<Rightarrow> bool) \<Rightarrow> 'fs \<Rightarrow> 'fs Session" where
  "session_New secure crt portassigner auth fp =
     \<lparr>conn_secure = secure, conn_out = [], cert = crt,
      ses_id = \<lparr>username = '''', isAuthenticated = False\<rparr>,
      pa = portassigner, lastDataChanneler = None, authFunc = auth, fileProvider = fp,
      dataChannelEncryption = False, lastREST = 0\<rparr>"

text \<open>\<open>sendStatement\<close> (every caller passes a statement of three bytes or more; write
  errors are only logged).\<close>

definition sendStatement :: "string \<Rightarrow> 'fs Session \<Rightarrow> 'fs Session" where
  "sendStatement statement S =
     (let st = (if drop (length statement - 2) statement \<noteq> CRLF then statement @ CRLF
                else statement)
      in S\<lparr>conn_out := conn_out S @ [st]\<rparr>)"

text \<open>A call of \<open>Close\<close> on a data channel from the session's side.\<close>

definition close_dc :: "dataChannel \<Rightarrow> 'fs Session \<Rightarrow> fault + (dataChannel \<times> 'fs Session)" where
  "close_dc dc S =
     thenF (dataChannel_Close dc (pa S)) (\<lambda>(dc', P'). Inr (dc', S\<lparr>pa := P'\<rparr>))"

definition retrievePassivePort ::
  "('fs, 'f) env \<Rightarrow> 'fs Session \<Rightarrow> fault + (string option \<times> 'fs Session)" where
  "retrievePassivePort E S =
     thenF (case lastDataChanneler S of
              None \<Rightarrow> Inr S
            | Some dc \<Rightarrow> thenF (close_dc dc S) (\<lambda>(dc', S'). Inr (S'\<lparr>lastDataChanneler := None\<rparr>)))
       (\<lambda>S1. thenF (datachannel_New (net_Listen E) (pa S1) (cert S1) (dataChannelEncryption S1))
          (\<lambda>(r, P'). case r of
               Inl err \<Rightarrow> Inr (Some err, S1\<lparr>pa := P', lastDataChanneler := None\<rparr>)
             | Inr dc \<Rightarrow> Inr (None, S1\<lparr>pa := P', lastDataChanneler := Some dc\<rparr>)))"

text \<open>
  \<open>Sink(f)\<close> together with the goroutine started by \<open>Open\<close>, run to its end at the
  point of the call (in the program the goroutine goes on while the command loop
  continues).  The send on \<open>fncChan\<close> never returns when the channel was not made,
  when no connection is accepted, or when \<open>select\<close> takes the kill signal.  With
  encryption on and no certificate the goroutine returns before \<open>f\<close>.  Otherwise \<open>f\<close>
  runs, then its deferred \<open>dc.Close()\<close>, then the deferred \<open>dc.Close()\<close> of the
  goroutine.  \<open>f\<close> is given as its effect on the session.
\<close>

definition Sink ::
  "('fs, 'f) env \<Rightarrow> dataChannel \<Rightarrow> ('fs Session \<Rightarrow> 'fs Session) \<Rightarrow> 'fs Session \<Rightarrow> fault + 'fs Session" where
  "Sink E dc f S =
     (if \<not> fncChan dc then Inl BlocksForever
      else if \<not> client_connects E (port dc) then Inl BlocksForever
      else if 0 < killChan dc \<and> select_takes_kill E then Inl BlocksForever
      else let dc1 = dc\<lparr>connection := True, listener := False\<rparr>
           in if encrypted dc1 \<and> \<not> dc_cert dc1
              then thenF (close_dc dc1 S) (\<lambda>(dc2, S1). Inr S1)
              else let dc2 = (if encrypted dc1 then dc1\<lparr>secureConnection := True\<rparr> else dc1)
                   in thenF (close_dc dc2 (f S)) (\<lambda>(dc3, S1).
                        thenF (close_dc dc3 S1) (\<lambda>(dc4, S2). Inr S2)))"

section \<open>Command handlers (ftp/session/commands.go)\<close>

text \<open>A handler returns \<open>terminateProcessing\<close> and the session it leaves.\<close>

type_synonym 'fs result = "fault + (bool \<times> 'fs Session)"

definition DQ :: string where
  "DQ = [CHR 0x22]"

definition processSYST :: "string list \<Rightarrow> 'fs Session \<Rightarrow> 'fs result" where
  "processSYST toks S = Inr (False, sendStatement ''215 UNIX Type: L8'' S)"

definition processQUIT :: "string list \<Rightarrow> 'fs Session \<Rightarrow> 'fs result" where
  "processQUIT toks S = Inr (True, sendStatement ''221 Goodbye.'' S)"

definition processNOOP :: "string list \<Rightarrow> 'fs Session \<Rightarrow> 'fs result" where
  "processNOOP toks S = Inr (False, sendStatement ''200 NOOP ok.'' S)"

definition processFEAT :: "string list \<Rightarrow> 'fs Session \<Rightarrow> 'fs result" where
  "processFEAT toks S =
     (let buf = ''211-Features:'' @ CRLF
                @ concat (map (\<lambda>cmd. '' '' @ cmd @ CRLF) commands)
                @ (if cert S \<and> \<not> conn_secure S then '' AUTH'' @ CRLF else '''')
                @ ''211 End''
      in Inr (False, sendStatement buf S))"

definition processPWD :: "('fs, 'f) env \<Rightarrow> string list \<Rightarrow> 'fs Session \<Rightarrow> 'fs result" where
  "processPWD E toks S =
     thenF (fp_CurrentDirectory E (fileProvider S))
       (\<lambda>cwd. Inr (False, sendStatement (''257 '' @ DQ @ cwd @ DQ) S))"

definition processCWD :: "('fs, 'f) env \<Rightarrow> string list \<Rightarrow> 'fs Session \<Rightarrow> 'fs result" where
  "processCWD E toks S =
     (if length toks < 2 then Inr (False, sendStatement ''550 Failed to change directory'' S)
      else thenF (clearPath (Join (drop 1 toks) '' '')) (\<lambda>path.
           thenF (fp_ChangeDirectory E path (fileProvider S)) (\<lambda>(err, fs').
             case err of
               Some e \<Rightarrow> Inr (False, sendStatement ''550 Failed to change directory''
                                      (S\<lparr>fileProvider := fs'\<rparr>))
             | None \<Rightarrow> Inr (False, sendStatement ''250 Directory successfully changed''
                                    (S\<lparr>fileProvider := fs'\<rparr>)))))"

definition processCDUP :: "('fs, 'f) env \<Rightarrow> string list \<Rightarrow> 'fs Session \<Rightarrow> 'fs result" where
  "processCDUP E toks S = processCWD E [''CWD'', ''..''] S"

text \<open>The function handed to \<open>Sink\<close> by RETR, STOR, and by LIST and NLST.\<close>

definition retr_closure :: "('fs, 'f) env \<Rightarrow> 'f \<Rightarrow> int \<Rightarrow> 'fs Session \<Rightarrow> 'fs Session" where
  "retr_closure E f rest S =
     (case retr_transfer E f rest of
        OpenFailed err \<Rightarrow> sendStatement (''550 Could not get file: '' @ err @ ''.'') S
      | Completed \<Rightarrow>
          sendStatement ''226 File send OK.''
            (sendStatement (''150 Opening BINARY mode data connection for '' @ file_Name E f @ ''.'') S)
      | Aborted \<Rightarrow>
          sendStatement (''150 Opening BINARY mode data connection for '' @ file_Name E f @ ''.'') S)"

definition stor_closure :: "('fs, 'f) env \<Rightarrow> 'f \<Rightarrow> 'fs Session \<Rightarrow> 'fs Session" where
  "stor_closure E f S =
     (case stor_transfer E f (fileProvider S) of (r, fs') \<Rightarrow>
        let S0 = S\<lparr>fileProvider := fs'\<rparr>
        in case r of
             OpenFailed err \<Rightarrow> sendStatement (''550 Could not get file: '' @ err @ ''.'') S0
           | Completed \<Rightarrow>
               sendStatement ''226 File received OK.''
                 (sendStatement (''150 Opening BINARY mode data connection for '' @ file_Name E f @ ''.'') S0)
           | Aborted \<Rightarrow>
               sendStatement (''150 Opening BINARY mode data connection for '' @ file_Name E f @ ''.'') S0)"

definition list_closure :: "('fs, 'f) env \<Rightarrow> string \<Rightarrow> 'fs Session \<Rightarrow> 'fs Session" where
  "list_closure E buf S =
     (let S1 = sendStatement ''150 Here comes the directory listing.'' S
      in case data_Write E buf of
           Some err \<Rightarrow> sendStatement (''550 Directory listing error: '' @ err) S1
         | None \<Rightarrow> sendStatement ''226 Directory send OK.'' S1)"

text \<open>\<open>dc := ses.lastDataChanneler; ses.lastDataChanneler = nil; dc.Sink(f)\<close>\<close>

definition sink_last :: "('fs, 'f) env \<Rightarrow> ('fs Session \<Rightarrow> 'fs Session) \<Rightarrow> 'fs Session \<Rightarrow> 'fs result" where
  "sink_last E f S =
     (case lastDataChanneler S of
        None \<Rightarrow> Inl NilDereference
      | Some dc \<Rightarrow> thenF (Sink E dc f (S\<lparr>lastDataChanneler := None\<rparr>)) (\<lambda>S'. Inr (False, S')))"

definition processRETR :: "('fs, 'f) env \<Rightarrow> string list \<Rightarrow> 'fs Session \<Rightarrow> 'fs result" where
  "processRETR E toks S =
     (let rest = lastREST S;
          S1 = S\<lparr>lastREST := 0\<rparr>
      in if length toks < 2 then Inr (False, sendStatement ''501 object needed!'' S1)
         else thenF (clearPath (Join (drop 1 toks) '' '')) (\<lambda>file.
              thenF (fp_Get E file (fileProvider S1)) (\<lambda>r.
                case r of
                  Inl err \<Rightarrow> Inr (False, sendStatement (''550 Could not get file: '' @ err @ ''.'') S1)
                | Inr f \<Rightarrow> sink_last E (retr_closure E f rest) S1)))"

definition processSTOR :: "('fs, 'f) env \<Rightarrow> string list \<Rightarrow> 'fs Session \<Rightarrow> 'fs result" where
  "processSTOR E toks S =
     (if length toks < 2 then Inr (False, sendStatement ''501 object needed!'' S)
      else thenF (fp_New E (Join (drop 1 toks) '' '') False (fileProvider S)) (\<lambda>(r, fs').
             let S1 = S\<lparr>fileProvider := fs'\<rparr>
             in case r of
                  Inl err \<Rightarrow> Inr (False, sendStatement (''550 Could not create file file: '' @ err @ ''.'') S1)
                | Inr f \<Rightarrow> sink_last E (stor_closure E f) S1))"

text \<open>One line of a LIST reply:
  \<^verbatim>\<open>"%s   1 %-10s %-10s %10d %s %s\r\n"\<close> with \<open>"group"\<close> and \<open>"user"\<close>.\<close>

definition list_line :: "string \<Rightarrow> int \<Rightarrow> string \<Rightarrow> string \<Rightarrow> string" where
  "list_line mode sz date name =
     mode @ ''   1 '' @ pad_right 10 ''group'' @ '' '' @ pad_right 10 ''user'' @ '' ''
     @ pad_left 10 (itoa sz) @ '' '' @ date @ '' '' @ name @ CRLF"

definition processLIST :: "('fs, 'f) env \<Rightarrow> string list \<Rightarrow> 'fs Session \<Rightarrow> 'fs result" where
  "processLIST E toks S =
     thenF (fp_CurrentDirectory E (fileProvider S)) (\<lambda>lastCWD.
     thenF (if 1 < length toks
            then thenF (fp_ChangeDirectory E (toks ! 1) (fileProvider S))
                   (\<lambda>(err, fs'). Inr (err, S\<lparr>fileProvider := fs'\<rparr>))
            else Inr (None, S)) (\<lambda>(err1, S1).
       case err1 of
         Some e \<Rightarrow> Inr (False, sendStatement (''451 cannot retrieve directory list: '' @ e) S1)
       | None \<Rightarrow>
           thenF (fp_List E (fileProvider S1)) (\<lambda>r.
             case r of
               Inl e \<Rightarrow> Inr (False, sendStatement (''451 cannot retrieve directory list: '' @ e) S1)
             | Inr files \<Rightarrow>
                 thenF (if 1 < length toks
                        then thenF (fp_ChangeDirectory E lastCWD (fileProvider S1))
                               (\<lambda>(err, fs'). Inr (err, S1\<lparr>fileProvider := fs'\<rparr>))
                        else Inr (None, S1)) (\<lambda>(err2, S2).
                   case err2 of
                     Some e \<Rightarrow> Inr (False, sendStatement (''451 cannot retrieve directory list: '' @ e) S2)
                   | None \<Rightarrow>
                       let buf = list_line ''drwxrwxrwx'' 0 ''Jan  02  2006'' ''.''
                                 @ list_line ''drwxrwxrwx'' 0 ''Jan  02  2006'' ''..''
                                 @ concat (map (\<lambda>file. list_line (file_Mode E file) (file_Size E file)
                                                          (file_Date E file) (file_Name E file)) files)
                       in sink_last E (list_closure E buf) S2))))"

definition processNLST :: "('fs, 'f) env \<Rightarrow> string list \<Rightarrow> 'fs Session \<Rightarrow> 'fs result" where
  "processNLST E toks S =
     thenF (fp_CurrentDirectory E (fileProvider S)) (\<lambda>lastCWD.
     thenF (if 1 < length toks
            then thenF (fp_ChangeDirectory E (toks ! 1) (fileProvider S))
                   (\<lambda>(err, fs'). Inr (err, S\<lparr>fileProvider := fs'\<rparr>))
            else Inr (None, S)) (\<lambda>(err1, S1).
       case err1 of
         Some e \<Rightarrow> Inr (False, sendStatement (''451 cannot retrieve directory list: '' @ e) S1)
       | None \<Rightarrow>
           thenF (fp_List E (fileProvider S1)) (\<lambda>r.
             case r of
               Inl e \<Rightarrow> Inr (False, sendStatement (''451 cannot retrieve directory list: '' @ e) S1)
             | Inr files \<Rightarrow>
                 thenF (if 1 < length toks
                        then thenF (fp_ChangeDirectory E lastCWD (fileProvider S1))
                               (\<lambda>(err, fs'). Inr (err, S1\<lparr>fileProvider := fs'\<rparr>))
                        else Inr (None, S1)) (\<lambda>(err2, S2).
                   case err2 of
                     Some e \<Rightarrow> Inr (False, sendStatement (''451 cannot retrieve directory list: '' @ e) S2)
                   | None \<Rightarrow>
                       let buf = concat (map (\<lambda>file. file_Name E file @ CRLF) files)
                       in sink_last E (list_closure E buf) S2))))"

definition processUSER :: "string list \<Rightarrow> 'fs Session \<Rightarrow> 'fs result" where
  "processUSER toks S =
     (if length toks < 2 then Inr (False, sendStatement ''501 user needed!'' S)
      else let S1 = S\<lparr>ses_id := (ses_id S)\<lparr>username := toks ! 1\<rparr>\<rparr>
           in Inr (False, sendStatement (''331 Password required for '' @ username (ses_id S1) @ ''.'') S1))"

definition processPASS :: "string list \<Rightarrow> 'fs Session \<Rightarrow> 'fs result" where
  "processPASS toks S =
     (if length toks < 2 then Inr (False, sendStatement ''501 password needed!'' S)
      else let password = toks ! 1
           in if \<not> authFunc S (username (ses_id S)) password
              then let S1 = S\<lparr>ses_id := (ses_id S)\<lparr>isAuthenticated := False\<rparr>\<rparr>;
                       S2 = S1\<lparr>ses_id := (ses_id S1)\<lparr>username := ''''\<rparr>\<rparr>
                   in Inr (False, sendStatement ''530 Password Rejected'' S2)
              else let S1 = S\<lparr>ses_id := (ses_id S)\<lparr>isAuthenticated := True\<rparr>\<rparr>
                   in Inr (False, sendStatement (''230 User '' @ username (ses_id S1) @ '' logged in.'') S1))"

definition processPASV :: "('fs, 'f) env \<Rightarrow> string list \<Rightarrow> 'fs Session \<Rightarrow> 'fs result" where
  "processPASV E toks S =
     (case getLocalIP E of
        Inl err \<Rightarrow> Inr (False, sendStatement (''550 Could not get local IP: '' @ err) S)
      | Inr ip \<Rightarrow>
          thenF (retrievePassivePort E S) (\<lambda>(err, S1).
            case err of
              Some e \<Rightarrow> Inr (False, sendStatement (''550 Could not allocate passive port: '' @ e) S1)
            | None \<Rightarrow>
                (case lastDataChanneler S1 of
                   None \<Rightarrow> Inl NilDereference
                 | Some dc \<Rightarrow>
                     let s = map (\<lambda>c. if c = CHR ''.'' then CHR '','' else c) ip
                     in (case Open (net_Listen E) dc of (oerr, dc') \<Rightarrow>
                           let S2 = S1\<lparr>lastDataChanneler := Some dc'\<rparr>
                           in case oerr of
                                Some e \<Rightarrow> Inr (False, sendStatement (''550 Could not open passive port: '' @ e) S2)
                              | None \<Rightarrow>
                                  Inr (False, sendStatement
                                    (itoa 227 @ '' Entering Passive Mode ('' @ s @ '','' @ ToPASVStringPort dc' @ '')'') S2)))))"

definition processEPSV :: "('fs, 'f) env \<Rightarrow> string list \<Rightarrow> 'fs Session \<Rightarrow> 'fs result" where
  "processEPSV E toks S =
     thenF (retrievePassivePort E S) (\<lambda>(err, S1).
       case err of
         Some e \<Rightarrow> Inr (False, sendStatement (''550 Could not allocate passive port: '' @ e) S1)
       | None \<Rightarrow>
           (case lastDataChanneler S1 of
              None \<Rightarrow> Inl NilDereference
            | Some dc \<Rightarrow>
                (case Open (net_Listen E) dc of (oerr, dc') \<Rightarrow>
                   let S2 = S1\<lparr>lastDataChanneler := Some dc'\<rparr>
                   in case oerr of
                        Some e \<Rightarrow> Inr (False, sendStatement (''550 Could not open passive port: '' @ e) S2)
                      | None \<Rightarrow>
                          Inr (False, sendStatement
                            (''229 Entering Extended Passive Mode (|||'' @ itoa (Port dc') @ ''|)'') S2))))"

definition processTYPE :: "('fs, 'f) env \<Rightarrow> string list \<Rightarrow> 'fs Session \<Rightarrow> 'fs result" where
  "processTYPE E toks S =
     (if length toks < 2 then Inr (False, sendStatement ''501 type needed!'' S)
      else if strings_ToLower E (toks ! 1) \<noteq> ''i'' \<and> strings_ToLower E (toks ! 1) \<noteq> ''a''
      then Inr (False, sendStatement
             (''504 Type I and A are the only one supported. '' @ toks ! 1 @ '' is not supported at this time'') S)
      else Inr (False, sendStatement (''200 Type set to '' @ strings_ToUpper E (toks ! 1)) S))"

definition processSIZE :: "('fs, 'f) env \<Rightarrow> string list \<Rightarrow> 'fs Session \<Rightarrow> 'fs result" where
  "processSIZE E toks S =
     (if length toks < 2 then Inr (False, sendStatement ''501 object needed!'' S)
      else thenF (clearPath (Join (drop 1 toks) '' '')) (\<lambda>file.
           thenF (fp_Get E file (fileProvider S)) (\<lambda>r.
             case r of
               Inl err \<Rightarrow> Inr (False, sendStatement (''550 Could not get file: '' @ err @ ''.'') S)
             | Inr f \<Rightarrow> Inr (False, sendStatement (''213 '' @ itoa (file_Size E f)) S))))"

definition processMKD :: "('fs, 'f) env \<Rightarrow> string list \<Rightarrow> 'fs Session \<Rightarrow> 'fs result" where
  "processMKD E toks S =
     (if length toks < 1 then Inr (False, sendStatement ''501 folder name needed'' S)
      else let path = Join (drop 1 toks) '' ''
           in thenF (fp_CreateDirectory E path (fileProvider S)) (\<lambda>(err, fs').
                let S1 = S\<lparr>fileProvider := fs'\<rparr>
                in case err of
                     Some e \<Rightarrow> Inr (False, sendStatement (''550 cannot create folder '' @ path @ '' ('' @ e @ '')'') S1)
                   | None \<Rightarrow>
                       thenF (fp_Get E path (fileProvider S1)) (\<lambda>r.
                         case r of
                           Inl e \<Rightarrow> Inr (False, sendStatement (''550 cannot create folder '' @ path @ '' ('' @ e @ '')'') S1)
                         | Inr dir \<Rightarrow>
                             Inr (False, sendStatement (''257 '' @ DQ @ file_FullPath E dir @ DQ @ '' directory created'') S1))))"

text \<open>RMD, DELE and REST test \<open>len(tokens) < 1\<close> and then read \<open>tokens[1]\<close>.\<close>

definition processRMD :: "('fs, 'f) env \<Rightarrow> string list \<Rightarrow> 'fs Session \<Rightarrow> 'fs result" where
  "processRMD E toks S =
     (if length toks < 1 then Inr (False, sendStatement ''501 folder name needed'' S)
      else thenF (fp_RemoveDirectory E (Join (drop 1 toks) '' '') (fileProvider S)) (\<lambda>(err, fs').
             let S1 = S\<lparr>fileProvider := fs'\<rparr>
             in case err of
                  Some e \<Rightarrow>
                    if length toks < 2 then Inl IndexOutOfRange
                    else Inr (False, sendStatement (''550 cannot delete folder '' @ toks ! 1 @ '' ('' @ e @ '')'') S1)
                | None \<Rightarrow> Inr (False, sendStatement ''250 folder deleted successfully'' S1)))"

definition processDELE :: "('fs, 'f) env \<Rightarrow> string list \<Rightarrow> 'fs Session \<Rightarrow> 'fs result" where
  "processDELE E toks S =
     (if length toks < 1 then Inr (False, sendStatement ''501 file name needed'' S)
      else thenF (fp_Get E (Join (drop 1 toks) '' '') (fileProvider S)) (\<lambda>r.
             case r of
               Inl e \<Rightarrow>
                 if length toks < 2 then Inl IndexOutOfRange
                 else Inr (False, sendStatement (''550 cannot delete file '' @ toks ! 1 @ '' ('' @ e @ '')'') S)
             | Inr f \<Rightarrow>
                 thenF (file_Delete E f (fileProvider S)) (\<lambda>(err, fs').
                   let S1 = S\<lparr>fileProvider := fs'\<rparr>
                   in case err of
                        Some e \<Rightarrow>
                          if length toks < 2 then Inl IndexOutOfRange
                          else Inr (False, sendStatement (''550 cannot delete file '' @ toks ! 1 @ '' ('' @ e @ '')'') S1)
                      | None \<Rightarrow> Inr (False, sendStatement ''200 file delete successfully'' S1))))"

text \<open>
  \<open>fmt.Sscanf("%d", tokens[1], &ses.lastREST)\<close>: the first argument of \<open>Sscanf\<close> is the
  text to scan and the second the format, so the text scanned is always \<open>%d\<close> and the
  format is the argument of REST.  An empty format leaves the operand unused.  A format
  whose first byte is an ASCII byte other than a space and \<open>%\<close> is a literal that must
  match the first byte \<open>%\<close> of the text, and does not.  Any other format is left to
  \<open>Sscanf_verbs\<close>.  The result is the error and the value stored in \<open>lastREST\<close>, if any.
\<close>

definition isSpace :: "char \<Rightarrow> bool" where
  "isSpace c = ((9::nat) \<le> of_char c \<and> of_char c \<le> (13::nat) \<or> of_char c = (32::nat))"

definition Sscanf_percent_d :: "('fs, 'f) env \<Rightarrow> string \<Rightarrow> string option \<times> int option" where
  "Sscanf_percent_d E format =
     (case format of
        [] \<Rightarrow> (Some ''too many operands'', None)
      | c # _ \<Rightarrow>
          if of_char c < (128::nat) \<and> \<not> isSpace c \<and> c \<noteq> CHR ''%''
          then (Some ''input does not match format'', None)
          else Sscanf_verbs E format)"

definition processREST :: "('fs, 'f) env \<Rightarrow> string list \<Rightarrow> 'fs Session \<Rightarrow> 'fs result" where
  "processREST E toks S =
     (if length toks < 1 then Inr (False, sendStatement ''501 size needed'' S)
      else if length toks < 2 then Inl IndexOutOfRange
      else (case Sscanf_percent_d E (toks ! 1) of (err, stored) \<Rightarrow>
              let S1 = (case stored of Some v \<Rightarrow> S\<lparr>lastREST := v\<rparr> | None \<Rightarrow> S)
              in case err of
                   Some e \<Rightarrow> Inr (False, sendStatement (''550 syntax error ('' @ e @ '')'') S1)
                 | None \<Rightarrow> Inr (False, sendStatement ''350 start position moved successfully'' S1)))"

text \<open>\<open>SwitchToTLS\<close> of the control connection always returns nil.\<close>

definition processAUTH :: "string list \<Rightarrow> 'fs Session \<Rightarrow> 'fs result" where
  "processAUTH toks S =
     (if \<not> cert S \<or> conn_secure S then Inr (False, sendStatement ''502 not supported'' S)
      else if length toks < 2 then Inr (False, sendStatement ''550 must specify protocol!'' S)
      else if toks ! 1 \<noteq> ''TLS''
      then Inr (False, sendStatement (''503 '' @ toks ! 0 @ '' is not supported'') S)
      else Inr (False, (sendStatement ''234 Using authentication type TLS'' S)\<lparr>conn_secure := True\<rparr>))"

definition processPROT :: "('fs, 'f) env \<Rightarrow> string list \<Rightarrow> 'fs Session \<Rightarrow> 'fs result" where
  "processPROT E toks S =
     (if \<not> conn_secure S then Inr (False, sendStatement ''502 not supported'' S)
      else if length toks < 2 then Inr (False, sendStatement ''550 must specify protection level!'' S)
      else let protLevel = strings_ToUpper E (toks ! 1)
           in if protLevel = ''P''
              then Inr (False, sendStatement ''200 data channel TLS encryption enabled''
                     (S\<lparr>dataChannelEncryption := True,
                        lastDataChanneler := map_option (SetEncrypted True) (lastDataChanneler S)\<rparr>))
              else if protLevel = ''C''
              then Inr (False, sendStatement ''200 data channel TLS encryption disabled''
                     (S\<lparr>dataChannelEncryption := False,
                        lastDataChanneler := map_option (SetEncrypted False) (lastDataChanneler S)\<rparr>))
              else Inr (False, sendStatement (''550 '' @ protLevel @ '' is not supported'') S))"

section \<open>Command pipeline (ftp/session/cmdlist.go)\<close>

text \<open>\<open>processEntry\<close> is the method value stored in \<open>cmdlist.pe\<close>; \<open>None\<close> is nil.  The
  session a \<open>cmdlist\<close> points to is carried in it.\<close>

datatype processEntry =
    Proc_USER | Proc_PASS | Proc_PWD | Proc_TYPE | Proc_PASV | Proc_EPSV | Proc_LIST
  | Proc_SYST | Proc_CWD | Proc_CDUP | Proc_SIZE | Proc_RETR | Proc_STOR | Proc_FEAT
  | Proc_QUIT | Proc_NOOP | Proc_MKD | Proc_RMD | Proc_DELE | Proc_REST | Proc_NLST
  | Proc_AUTH | Proc_PROT

fun run_pe :: "('fs, 'f) env \<Rightarrow> processEntry \<Rightarrow> string list \<Rightarrow> 'fs Session \<Rightarrow> 'fs result" where
  "run_pe E Proc_USER = processUSER"
| "run_pe E Proc_PASS = processPASS"
| "run_pe E Proc_PWD = processPWD E"
| "run_pe E Proc_TYPE = processTYPE E"
| "run_pe E Proc_PASV = processPASV E"
| "run_pe E Proc_EPSV = processEPSV E"
| "run_pe E Proc_LIST = processLIST E"
| "run_pe E Proc_SYST = processSYST"
| "run_pe E Proc_CWD = processCWD E"
| "run_pe E Proc_CDUP = processCDUP E"
| "run_pe E Proc_SIZE = processSIZE E"
| "run_pe E Proc_RETR = processRETR E"
| "run_pe E Proc_STOR = processSTOR E"
| "run_pe E Proc_FEAT = processFEAT"
| "run_pe E Proc_QUIT = processQUIT"
| "run_pe E Proc_NOOP = processNOOP"
| "run_pe E Proc_MKD = processMKD E"
| "run_pe E Proc_RMD = processRMD E"
| "run_pe E Proc_DELE = processDELE E"
| "run_pe E Proc_REST = processREST E"
| "run_pe E Proc_NLST = processNLST E"
| "run_pe E Proc_AUTH = processAUTH"
| "run_pe E Proc_PROT = processPROT E"

record 'fs cmdlist =
  ses :: "'fs Session"
  tokens :: "string list"
  pe :: "processEntry option"

definition newCmdList :: "'fs Session \<Rightarrow> string list \<Rightarrow> processEntry \<Rightarrow> 'fs cmdlist" where
  "newCmdList S toks p = \<lparr>ses = S, tokens = toks, pe = Some p\<rparr>"

definition requireAuth :: "'fs cmdlist \<Rightarrow> 'fs cmdlist" where
  "requireAuth cmd =
     (if pe cmd = None then cmd
      else if \<not> isAuthenticated (ses_id (ses cmd))
      then cmd\<lparr>ses := sendStatement ''530 Please login with USER and PASS.'' (ses cmd), pe := None\<rparr>
      else cmd)"

definition requirePASV :: "'fs cmdlist \<Rightarrow> 'fs cmdlist" where
  "requirePASV cmd =
     (if pe cmd = None then cmd
      else if (case lastDataChanneler (ses cmd) of None \<Rightarrow> True | Some dc \<Rightarrow> IsClosed dc)
      then cmd\<lparr>ses := sendStatement ''425 Use PASV or EPSV first'' (ses cmd), pe := None\<rparr>
      else cmd)"

definition resetREST :: "'fs cmdlist \<Rightarrow> 'fs cmdlist" where
  "resetREST cmd = cmd\<lparr>ses := (ses cmd)\<lparr>lastREST := 0\<rparr>\<rparr>"

definition resetUSER :: "'fs cmdlist \<Rightarrow> 'fs cmdlist" where
  "resetUSER cmd =
     (if \<not> isAuthenticated (ses_id (ses cmd))
      then cmd\<lparr>ses := (ses cmd)\<lparr>ses_id := (ses_id (ses cmd))\<lparr>username := ''''\<rparr>\<rparr>\<rparr>
      else cmd)"

definition Execute :: "('fs, 'f) env \<Rightarrow> 'fs cmdlist \<Rightarrow> 'fs result" where
  "Execute E cmd =
     (case pe cmd of
        None \<Rightarrow> Inr (False, ses cmd)
      | Some p \<Rightarrow> run_pe E p (tokens cmd) (ses cmd))"

section \<open>Command dispatch (\<open>Session.Handle\<close>)\<close>

text \<open>
  \<open>build_cmdlist\<close> is the \<open>switch tokens[0]\<close> of \<open>Handle\<close> up to, and without, the call
  of \<open>Execute\<close>: the chain of pipeline methods of the matching case, applied in the
  order written there; \<open>None\<close> is the \<open>default\<close> case.
\<close>

definition build_cmdlist :: "'fs Session \<Rightarrow> string list \<Rightarrow> 'fs cmdlist option" where
  "build_cmdlist S toks =
     (let t = toks ! 0 in
      if t = commands ! cmd_USER then Some (resetREST (newCmdList S toks Proc_USER))
      else if t = commands ! cmd_PASS then Some (resetREST (newCmdList S toks Proc_PASS))
      else if t = commands ! cmd_PWD then Some (resetREST (resetUSER (requireAuth (newCmdList S toks Proc_PWD))))
      else if t = commands ! cmd_TYPE then Some (resetREST (resetUSER (requireAuth (newCmdList S toks Proc_TYPE))))
      else if t = commands ! cmd_PASV then Some (resetREST (resetUSER (requireAuth (newCmdList S toks Proc_PASV))))
      else if t = commands ! cmd_EPSV then Some (resetREST (resetUSER (requireAuth (newCmdList S toks Proc_EPSV))))
      else if t = commands ! cmd_LIST then Some (resetREST (resetUSER (requirePASV (requireAuth (newCmdList S toks Proc_LIST)))))
      else if t = commands ! cmd_SYST then Some (resetREST (resetUSER (newCmdList S toks Proc_SYST)))
      else if t = commands ! cmd_CWD then Some (resetREST (resetUSER (requireAuth (newCmdList S toks Proc_CWD))))
      else if t = commands ! cmd_CDUP then Some (resetREST (resetUSER (requireAuth (newCmdList S toks Proc_CDUP))))
      else if t = commands ! cmd_SIZE then Some (resetREST (resetUSER (requireAuth (newCmdList S toks Proc_SIZE))))
      else if t = commands ! cmd_RETR then Some (requirePASV (resetUSER (requireAuth (newCmdList S toks Proc_RETR))))
      else if t = commands ! cmd_STOR then Some (requirePASV (resetREST (resetUSER (requireAuth (newCmdList S toks Proc_STOR)))))
      else if t = commands ! cmd_FEAT then Some (resetREST (resetUSER (requireAuth (newCmdList S toks Proc_FEAT))))
      else if t = commands ! cmd_QUIT then Some (resetREST (resetUSER (newCmdList S toks Proc_QUIT)))
      else if t = commands ! cmd_NOOP then Some (resetREST (resetUSER (newCmdList S toks Proc_NOOP)))
      else if t = commands ! cmd_MKD then Some (resetREST (resetUSER (requireAuth (newCmdList S toks Proc_MKD))))
      else if t = commands ! cmd_RMD then Some (resetREST (resetUSER (requireAuth (newCmdList S toks Proc_RMD))))
      else if t = commands ! cmd_DELE then Some (resetREST (resetUSER (requireAuth (newCmdList S toks Proc_DELE))))
      else if t = commands ! cmd_REST then Some (resetREST (resetUSER (requirePASV (requireAuth (newCmdList S toks Proc_REST)))))
      else if t = commands ! cmd_NLST then Some (resetREST (resetUSER (requirePASV (requireAuth (newCmdList S toks Proc_NLST)))))
      else if t = ''AUTH'' then Some (resetREST (resetUSER (newCmdList S toks Proc_AUTH)))
      else if t = ''PROT'' then Some (resetREST (resetUSER (requireAuth (newCmdList S toks Proc_PROT))))
      else None)"

text \<open>One pass of the loop body of \<open>Handle\<close> on the tokens of a received line.\<close>

definition Handle_tokens :: "('fs, 'f) env \<Rightarrow> 'fs Session \<Rightarrow> string list \<Rightarrow> 'fs result" where
  "Handle_tokens E S toks =
     (if length toks < 1 then Inr (False, S)
      else (case build_cmdlist S toks of
              None \<Rightarrow> Inr (False, sendStatement ''502 not implemented'' S)
            | Some cmd \<Rightarrow> Execute E cmd))"

text \<open>The loop of \<open>Handle\<close> over the lines received before the end of the input, each
  given by its tokens.\<close>

fun Handle_loop :: "('fs, 'f) env \<Rightarrow> 'fs Session \<Rightarrow> string list list \<Rightarrow> fault + 'fs Session" where
  "Handle_loop E S [] = Inr S"
| "Handle_loop E S (toks # rest) =
     (case Handle_tokens E S toks of
        Inl e \<Rightarrow> Inl e
      | Inr (terminateProcessing, S') \<Rightarrow>
          if terminateProcessing then Inr S' else Handle_loop E S' rest)"

definition Handle :: "('fs, 'f) env \<Rightarrow> 'fs Session \<Rightarrow> string list list \<Rightarrow> fault + 'fs Session" where
  "Handle E S lines = Handle_loop E (sendStatement ''200 GOlang FTP Server welcomes you!'' S) lines"

section \<open>The local file system provider (ftp/fs/localFS)\<close>

text \<open>
  The provider over an operating system given by its answers: \<open>os_Stat\<close>,
  \<open>ioutil_ReadDir\<close> (an error, or the entries), and the outcome of \<open>os.Mkdir\<close>,
  \<open>os.MkdirAll\<close>, \<open>os.Remove\<close> and \<open>os.Create\<close>.  The path separator is \<open>/\<close>.
\<close>

record fileinfo =
  fi_name :: string
  fi_isDir :: bool
  fi_size :: int
  fi_mode :: string
  fi_date :: string

record opsys =
  os_Stat :: "string \<Rightarrow> string + fileinfo"
  ioutil_ReadDir :: "string \<Rightarrow> string + fileinfo list"
  os_Mkdir :: "string \<Rightarrow> string option"
  os_MkdirAll :: "string \<Rightarrow> string option"
  os_Remove :: "string \<Rightarrow> string option"
  os_Create :: "string \<Rightarrow> string option"

record physicalFile =
  pf_name :: string
  pf_path :: string
  pf_isDirectory :: bool
  pf_size :: int
  pf_date :: string
  pf_mode :: string

record physicalFS =
  homeRealDirectory :: string
  currentRealDirectory :: string

text \<open>\<open>path.Clean\<close>, \<open>filepath.Join\<close> of two elements, \<open>filepath.Base\<close> and
  \<open>filepath.Dir\<close> of the Go library, on slash-separated paths.\<close>

definition clean_step :: "bool \<Rightarrow> string list \<Rightarrow> string \<Rightarrow> string list" where
  "clean_step rooted stack c =
     (if c = ''..''
      then (if stack \<noteq> [] \<and> last stack \<noteq> ''..'' then butlast stack
            else if rooted then stack
            else stack @ [c])
      else stack @ [c])"

definition path_Clean :: "string \<Rightarrow> string" where
  "path_Clean p =
     (let rooted = (p \<noteq> [] \<and> hd p = CHR ''/'');
          comps = filter (\<lambda>c. c \<noteq> '''' \<and> c \<noteq> ''.'') (Split p (CHR ''/''));
          out = (if rooted then ''/'' else '''') @ Join (foldl (clean_step rooted) [] comps) ''/''
      in if out = '''' then ''.'' else out)"

definition filepath_Join :: "string \<Rightarrow> string \<Rightarrow> string" where
  "filepath_Join a b =
     (if a \<noteq> [] then path_Clean (Join [a, b] ''/'')
      else if b \<noteq> [] then path_Clean (Join [b] ''/'')
      else [])"

definition filepath_Base :: "string \<Rightarrow> string" where
  "filepath_Base p =
     (if p = '''' then ''.''
      else (case filter (\<lambda>c. c \<noteq> '''') (Split p (CHR ''/'')) of
              [] \<Rightarrow> ''/''
            | ss \<Rightarrow> last ss))"

definition filepath_Dir :: "string \<Rightarrow> string" where
  "filepath_Dir p = path_Clean (rev (dropWhile (\<lambda>c. c \<noteq> CHR ''/'') (rev p)))"

definition physicalFile_New :: "string \<Rightarrow> string \<Rightarrow> fileinfo \<Rightarrow> physicalFile" where
  "physicalFile_New name path fi =
     \<lparr>pf_name = name, pf_path = path, pf_isDirectory = fi_isDir fi, pf_size = fi_size fi,
      pf_date = fi_date fi, pf_mode = fi_mode fi\<rparr>"

definition physicalFile_FullPath :: "physicalFile \<Rightarrow> string" where
  "physicalFile_FullPath f = filepath_Join (pf_path f) (pf_name f)"

text \<open>\<open>CurrentDirectory\<close> slices \<open>remote[lHome:]\<close>, which panics when the current
  directory has fewer pieces than the home directory.\<close>

definition localFS_CurrentDirectory :: "physicalFS \<Rightarrow> fault + string" where
  "localFS_CurrentDirectory pfs =
     (let home = Split (homeRealDirectory pfs) (CHR ''/'');
          lHome = length home;
          remote = Split (currentRealDirectory pfs) (CHR ''/'')
      in if length remote < lHome then Inl IndexOutOfRange
         else Inr (''/'' @ Join (drop lHome remote) ''/''))"

definition localFS_List :: "opsys \<Rightarrow> physicalFS \<Rightarrow> fault + (string + physicalFile list)" where
  "localFS_List os pfs =
     (case ioutil_ReadDir os (currentRealDirectory pfs) of
        Inl err \<Rightarrow> Inr (Inl err)
      | Inr items \<Rightarrow>
          Inr (Inr (map (\<lambda>item. physicalFile_New (fi_name item) (currentRealDirectory pfs) item) items)))"

definition localFS_Get :: "opsys \<Rightarrow> string \<Rightarrow> physicalFS \<Rightarrow> fault + (string + physicalFile)" where
  "localFS_Get os filename pfs =
     (case filename of
        [] \<Rightarrow> Inl IndexOutOfRange
      | c # _ \<Rightarrow>
          let fullpath = (if c = CHR ''/'' then filepath_Join (homeRealDirectory pfs) filename
                          else filepath_Join (currentRealDirectory pfs) filename)
          in (case os_Stat os (path_Clean fullpath) of
                Inl err \<Rightarrow> Inr (Inl err)
              | Inr f \<Rightarrow> Inr (Inr (physicalFile_New (filepath_Base fullpath) (filepath_Dir fullpath) f))))"

text \<open>\<open>New\<close>: a directory is made with \<open>os.Mkdir\<close>, a file is created empty through
  \<open>os.Create\<close>.  The new file has mode 0770, size 0 and the time of the call, whose
  date column is not modelled.\<close>

definition localFS_New ::
  "opsys \<Rightarrow> string \<Rightarrow> bool \<Rightarrow> physicalFS \<Rightarrow> fault + ((string + physicalFile) \<times> physicalFS)" where
  "localFS_New os name isDirectory pfs =
     (let fullpath = filepath_Join (currentRealDirectory pfs) name;
          pfile = \<lparr>pf_name = name, pf_path = currentRealDirectory pfs, pf_isDirectory = isDirectory,
                   pf_size = 0, pf_date = '''', pf_mode = ''-rwxrwx---''\<rparr>
      in if isDirectory
         then (case os_Mkdir os fullpath of
                 Some err \<Rightarrow> Inr (Inl err, pfs)
               | None \<Rightarrow> Inr (Inr pfile, pfs))
         else (case os_Create os (physicalFile_FullPath pfile) of
                 Some err \<Rightarrow> Inr (Inl err, pfs)
               | None \<Rightarrow> Inr (Inr pfile, pfs)))"

definition localFS_ChangeDirectory ::
  "opsys \<Rightarrow> string \<Rightarrow> physicalFS \<Rightarrow> fault + (string option \<times> physicalFS)" where
  "localFS_ChangeDirectory os path pfs =
     (if homeRealDirectory pfs = currentRealDirectory pfs \<and> path = ''..'' then Inr (None, pfs)
      else (case path of
              [] \<Rightarrow> Inl IndexOutOfRange
            | c # _ \<Rightarrow>
                let tmpDir = (if c = CHR ''/'' then filepath_Join (homeRealDirectory pfs) path
                              else filepath_Join (currentRealDirectory pfs) path)
                in (case os_Stat os tmpDir of
                      Inl err \<Rightarrow> Inr (Some err, pfs)
                    | Inr stat \<Rightarrow>
                        if \<not> fi_isDir stat
                        then Inr (Some (path @ '' requested entry is not a directory''), pfs)
                        else Inr (None, pfs\<lparr>currentRealDirectory := tmpDir\<rparr>))))"

definition localFS_CreateDirectory ::
  "opsys \<Rightarrow> string \<Rightarrow> physicalFS \<Rightarrow> fault + (string option \<times> physicalFS)" where
  "localFS_CreateDirectory os name pfs =
     Inr (os_MkdirAll os (filepath_Join (currentRealDirectory pfs) name), pfs)"

definition localFS_RemoveDirectory ::
  "opsys \<Rightarrow> string \<Rightarrow> physicalFS \<Rightarrow> fault + (string option \<times> physicalFS)" where
  "localFS_RemoveDirectory os name pfs =
     Inr (os_Remove os (filepath_Join (currentRealDirectory pfs) name), pfs)"

definition physicalFile_Delete ::
  "opsys \<Rightarrow> physicalFile \<Rightarrow> physicalFS \<Rightarrow> fault + (string option \<times> physicalFS)" where
  "physicalFile_Delete os f pfs = Inr (os_Remove os (physicalFile_FullPath f), pfs)"

text \<open>ASCII case mapping, which is what \<open>strings.ToLower\<close> and \<open>strings.ToUpper\<close> do
  on ASCII text.\<close>

definition ascii_lower :: "char \<Rightarrow> char" where
  "ascii_lower c = (if (65::nat) \<le> of_char c \<and> of_char c \<le> (90::nat) then char_of (of_char c + (32::nat)) else c)"

definition ascii_upper :: "char \<Rightarrow> char" where
  "ascii_upper c = (if (97::nat) \<le> of_char c \<and> of_char c \<le> (122::nat) then char_of (of_char c - (32::nat)) else c)"

text \<open>
  An environment with the local file system provider: every port can be bound, the
  client connects, transfers complete, and a REST format with a verb is rejected.
\<close>

definition localFS_env :: "opsys \<Rightarrow> (physicalFS, physicalFile) env" where
  "localFS_env os =
     \<lparr>fp_CurrentDirectory = localFS_CurrentDirectory,
      fp_ChangeDirectory = localFS_ChangeDirectory os,
      fp_List = localFS_List os,
      fp_Get = localFS_Get os,
      fp_New = localFS_New os,
      fp_CreateDirectory = localFS_CreateDirectory os,
      fp_RemoveDirectory = localFS_RemoveDirectory os,
      file_Name = pf_name,
      file_FullPath = physicalFile_FullPath,
      file_Size = pf_size,
      file_Mode = pf_mode,
      file_Date = pf_date,
      file_Delete = physicalFile_Delete os,
      retr_transfer = (\<lambda>f rest. Completed),
      stor_transfer = (\<lambda>f pfs. (Completed, pfs)),
      data_Write = (\<lambda>buf. None),
      net_Listen = (\<lambda>p. None),
      client_connects = (\<lambda>p. True),
      select_takes_kill = False,
      getLocalIP = Inr ''192.168.1.10'',
      strings_ToLower = map ascii_lower,
      strings_ToUpper = map ascii_upper,
      Sscanf_verbs = (\<lambda>format. (Some ''input does not match format'', None))\<rparr>"

text \<open>
  A disk mounted read-only under the home directory \<open>/srv/ftp\<close>: the directory
  \<open>/srv/ftp/pub\<close> holds one file, and the directory \<open>/srv/ftp/private\<close> can be entered
  but not read.
\<close>

definition dir_info :: "string \<Rightarrow> fileinfo" where
  "dir_info name = \<lparr>fi_name = name, fi_isDir = True, fi_size = 4096, fi_mode = ''drwxr-xr-x'',
                     fi_date = ''Jan  1 10:00''\<rparr>"

definition disk0 :: opsys where
  "disk0 =
     \<lparr>os_Stat = (\<lambda>p. if p = ''/srv/ftp'' then Inr (dir_info ''ftp'')
                      else if p = ''/srv/ftp/pub'' then Inr (dir_info ''pub'')
                      else if p = ''/srv/ftp/private'' then Inr (dir_info ''private'')
                      else if p = ''/srv/ftp/pub/hello.txt''
                      then Inr \<lparr>fi_name = ''hello.txt'', fi_isDir = False, fi_size = 12,
                                fi_mode = ''-rw-r--r--'', fi_date = ''Jan  1 10:00''\<rparr>
                      else Inl (''stat '' @ p @ '': no such file or directory'')),
      ioutil_ReadDir = (\<lambda>p. if p = ''/srv/ftp'' then Inr [dir_info ''private'', dir_info ''pub'']
                            else if p = ''/srv/ftp/pub''
                            then Inr [\<lparr>fi_name = ''hello.txt'', fi_isDir = False, fi_size = 12,
                                       fi_mode = ''-rw-r--r--'', fi_date = ''Jan  1 10:00''\<rparr>]
                            else if p = ''/srv/ftp/private''
                            then Inl ''open /srv/ftp/private: permission denied''
                            else Inl (''open '' @ p @ '': no such file or directory'')),
      os_Mkdir = (\<lambda>p. Some (''mkdir '' @ p @ '': read-only file system'')),
      os_MkdirAll = (\<lambda>p. Some (''mkdir '' @ p @ '': read-only file system'')),
      os_Remove = (\<lambda>p. Some (''remove '' @ p @ '': read-only file system'')),
      os_Create = (\<lambda>p. Some (''open '' @ p @ '': read-only file system''))\<rparr>"

text \<open>A session as the server creates it on a plain connection without certificate,
  over the local provider at \<open>/srv/ftp\<close> and a port assigner for the range
  \<open>[10000, 10002)\<close>, with the authenticator \<open>auth\<close>.\<close>

definition fresh_session :: "(string \<Rightarrow> string \<Rightarrow> bool) \<Rightarrow> physicalFS Session" where
  "fresh_session auth =
     session_New False False (portassigner_New 10000 10002) auth
       \<lparr>homeRealDirectory = ''/srv/ftp'', currentRealDirectory = ''/srv/ftp''\<rparr>"

section \<open>Names used in the statements below\<close>

text \<open>The first tokens whose case in \<open>Handle\<close> has \<open>requireAuth()\<close> in its chain, and
  those whose case has not.\<close>

definition auth_commands :: "string list" where
  "auth_commands = [''PWD'', ''TYPE'', ''PASV'', ''EPSV'', ''LIST'', ''CWD'', ''CDUP'', ''SIZE'',
     ''RETR'', ''STOR'', ''FEAT'', ''MKD'', ''RMD'', ''DELE'', ''REST'', ''NLST'', ''PROT'']"

definition open_commands :: "string list" where
  "open_commands = [''USER'', ''PASS'', ''SYST'', ''QUIT'', ''NOOP'', ''AUTH'']"

text \<open>A non-empty string of decimal digits.\<close>

definition decimal :: "string \<Rightarrow> bool" where
  "decimal n = (n \<noteq> [] \<and> list_all (\<lambda>c. c \<in> set ''0123456789'') n)"

text \<open>
  A concrete server: the authenticator accepts \<open>bob\<close> with \<open>secret\<close>, the provider is
  the local one over \<open>disk0\<close>.  \<open>pool_fresh\<close> is the port assigner for \<open>[10000, 10002)\<close>
  as created, \<open>pool_one_assigned\<close> the same after one \<open>AssignPort\<close>, \<open>dc_10000\<close> the
  data channel \<open>datachannel.New\<close> then returns, and \<open>ready_session\<close> the session after
  the commands \<open>USER bob\<close>, \<open>PASS secret\<close>, \<open>EPSV\<close>.
\<close>

definition login_auth :: "string \<Rightarrow> string \<Rightarrow> bool" where
  "login_auth name password = (name = ''bob'' \<and> password = ''secret'')"

definition demo_env :: "(physicalFS, physicalFile) env" where
  "demo_env = localFS_env disk0"

definition pool_fresh :: paService where
  "pool_fresh = \<lparr>minPASVPort = 10000, maxPASVPort = 10002, cAssigned = [False, False],
                  free = 2, closed = False\<rparr>"

definition pool_one_assigned :: paService where
  "pool_one_assigned = \<lparr>minPASVPort = 10000, maxPASVPort = 10002, cAssigned = [True, False],
                         free = 1, closed = False\<rparr>"

definition dc_10000 :: dataChannel where
  "dc_10000 = \<lparr>dc_cert = False, port = 10000, listener = False, connection = False,
                secureConnection = False, encrypted = False, fncChan = False, killChan = 0\<rparr>"

definition ready_session :: "physicalFS Session" where
  "ready_session =
     (fresh_session login_auth)
       \<lparr>conn_out := [''331 Password required for bob.'' @ CRLF, ''230 User bob logged in.'' @ CRLF,
                     ''229 Entering Extended Passive Mode (|||10000|)'' @ CRLF],
        ses_id := \<lparr>username = ''bob'', isAuthenticated = True\<rparr>,
        pa := pool_one_assigned,
        lastDataChanneler := Some (dc_10000\<lparr>listener := True, fncChan := True\<rparr>)\<rparr>"

section \<open>Properties of the path normalizer\<close>

subsection \<open>The loop of \<open>splitAndClearPath\<close> as a structural recursion\<close>

lemma pairs_short: "length xs \<le> 1 \<Longrightarrow> pairs xs = []"
  by (cases xs rule: pairs.cases) auto

lemma clear_loop_pairs: "clear_loop toks i tmp = tmp @ pairs (drop i toks)"
proof (induction toks i tmp rule: clear_loop.induct)
  case (1 toks i tmp)
  show ?case
  proof (cases "i + 1 < length toks")
    case True
    then have d: "drop i toks = toks ! i # toks ! (i + 1) # drop (i + 2) toks"
      by (simp add: Cons_nth_drop_Suc [symmetric])
    have d1: "drop (i + 1) toks = toks ! (i + 1) # drop (i + 2) toks"
      using True by (simp add: Cons_nth_drop_Suc [symmetric])
    show ?thesis
    proof (cases "toks ! (i + 1) = ''..''")
      case dd: True
      from "1.IH"(1) [OF True dd] True dd d show ?thesis
        by (subst clear_loop.simps) simp
    next
      case nd: False
      from "1.IH"(2) [OF True nd] True nd d d1 show ?thesis
        by (subst clear_loop.simps) simp
    qed
  next
    case False
    then have "length (drop i toks) \<le> 1" by simp
    then have "pairs (drop i toks) = []" by (rule pairs_short)
    with False show ?thesis
      by (subst clear_loop.simps) simp
  qed
qed

lemma pairs_last_collapse:
  "pairs ts @ (if ts \<noteq> [] \<and> last ts \<noteq> ''..'' then [last ts] else []) = collapse ts"
  by (induction ts rule: collapse.induct) auto

lemma last_step_collapse:
  "(if length ts > 0 \<and> ts ! (length ts - 1) \<noteq> ''..'' then pairs ts @ [ts ! (length ts - 1)] else pairs ts)
   = collapse ts"
proof (cases "ts = []")
  case True
  then show ?thesis by simp
next
  case False
  then have "ts ! (length ts - 1) = last ts"
    by (simp add: last_conv_nth)
  with False pairs_last_collapse [of ts] show ?thesis
    by (simp split: if_splits)
qed

lemma clear_loop_0: "clear_loop toks 0 [] = pairs toks"
  by (simp add: clear_loop_pairs)

lemma splitAndClearPath_collapse:
  "splitAndClearPath s = collapse (filter (\<lambda>item. item \<noteq> '''') (Split s (CHR ''/'')))"
  unfolding splitAndClearPath_def Let_def clear_loop_0
  by (rule last_step_collapse)

lemma collapse_subset: "set (collapse ts) \<subseteq> set ts"
  by (induction ts rule: collapse.induct) auto

lemma collapse_id: "''..'' \<notin> set ts \<Longrightarrow> collapse ts = ts"
  by (induction ts rule: collapse.induct) auto

lemma Split_no_sep: "p \<in> set (Split s sep) \<Longrightarrow> sep \<notin> set p"
  by (induction s arbitrary: p) (auto split: if_splits list.splits)

lemma Split_plain: "sep \<notin> set x \<Longrightarrow> Split x sep = [x]"
  by (induction x) auto

lemma Split_append: "sep \<notin> set x \<Longrightarrow> Split (x @ sep # r) sep = x # Split r sep"
  by (induction x) auto

lemma segments_Join:
  "\<forall>p \<in> set ts. p \<noteq> [] \<and> sep \<notin> set p \<Longrightarrow>
   filter (\<lambda>item. item \<noteq> []) (Split (Join ts [sep]) sep) = ts"
  by (induction ts "[sep]" rule: Join.induct) (auto simp: Split_plain Split_append)

lemma dotdot_follows_name_iff:
  "dotdot_follows_name ts \<longleftrightarrow> (\<forall>i<length ts. ts ! i = ''..'' \<longrightarrow> 0 < i \<and> ts ! (i - 1) \<noteq> ''..'')"
  by (auto simp: dotdot_follows_name_def list_all_iff)

lemma dotdot_follows_name_Cons2:
  "dotdot_follows_name (x # y # r) \<Longrightarrow>
     x \<noteq> ''..'' \<and> (if y = ''..'' then dotdot_follows_name r else dotdot_follows_name (y # r))"
proof -
  assume a: "dotdot_follows_name (x # y # r)"
  let ?ts = "x # y # r"
  from a have h: "\<And>i. i < length ?ts \<Longrightarrow> ?ts ! i = ''..'' \<Longrightarrow> 0 < i \<and> ?ts ! (i - 1) \<noteq> ''..''"
    unfolding dotdot_follows_name_iff by blast
  have x: "x \<noteq> ''..''" using h [of 0] by auto
  have "dotdot_follows_name r" if y: "y = ''..''"
    unfolding dotdot_follows_name_iff
  proof (intro allI impI)
    fix i assume i: "i < length r" "r ! i = ''..''"
    then have "0 < Suc (Suc i) \<and> ?ts ! (Suc (Suc i) - 1) \<noteq> ''..''"
      using h [of "Suc (Suc i)"] by simp
    then have "(y # r) ! i \<noteq> ''..''" by simp
    with y show "0 < i \<and> r ! (i - 1) \<noteq> ''..''"
      by (cases i) auto
  qed
  moreover have "dotdot_follows_name (y # r)" if y: "y \<noteq> ''..''"
    unfolding dotdot_follows_name_iff
  proof (intro allI impI)
    fix i assume i: "i < length (y # r)" "(y # r) ! i = ''..''"
    then have "?ts ! (Suc i - 1) \<noteq> ''..''"
      using h [of "Suc i"] by simp
    with y i show "0 < i \<and> (y # r) ! (i - 1) \<noteq> ''..''"
      by (cases i) auto
  qed
  ultimately show ?thesis using x by simp
qed

lemma collapse_no_dotdot: "dotdot_follows_name ts \<Longrightarrow> ''..'' \<notin> set (collapse ts)"
proof (induction ts rule: collapse.induct)
  case (1 x y r)
  from dotdot_follows_name_Cons2 [OF "1.prems"] "1.IH" show ?case
    by (auto split: if_splits)
next
  case (2 x)
  then show ?case by simp
next
  case 3
  then show ?case by simp
qed

lemma Join_Nil_iff: "\<forall>p \<in> set ts. p \<noteq> [] \<Longrightarrow> Join ts sep = [] \<longleftrightarrow> ts = []"
  by (induction ts sep rule: Join.induct) auto

lemma hd_Join: "ts \<noteq> [] \<Longrightarrow> \<forall>p \<in> set ts. p \<noteq> [] \<Longrightarrow> hd (Join ts sep) = hd (hd ts)"
  by (induction ts sep rule: Join.induct) auto

lemma clearPath_fix:
  assumes ne: "\<forall>p \<in> set ts. p \<noteq> [] \<and> CHR ''/'' \<notin> set p"
    and nd: "''..'' \<notin> set ts"
  shows "clearPath (''/'' @ Join ts ''/'') = Inr (''/'' @ Join ts ''/'')"
    and "ts \<noteq> [] \<Longrightarrow> clearPath (Join ts ''/'') = Inr (Join ts ''/'')"
proof -
  have seg: "filter (\<lambda>item. item \<noteq> []) (Split (Join ts ''/'') (CHR ''/'')) = ts"
    using segments_Join [of ts "CHR ''/''"] ne by simp
  have s1: "splitAndClearPath (Join ts ''/'') = ts"
    by (simp add: splitAndClearPath_collapse seg collapse_id [OF nd])
  have s2: "splitAndClearPath (''/'' @ Join ts ''/'') = ts"
    by (simp add: splitAndClearPath_collapse seg collapse_id [OF nd])
  show "clearPath (''/'' @ Join ts ''/'') = Inr (''/'' @ Join ts ''/'')"
    unfolding clearPath_def s2 by simp
  show "clearPath (Join ts ''/'') = Inr (Join ts ''/'')" if t: "ts \<noteq> []"
  proof -
    from ne have ne': "\<forall>p \<in> set ts. p \<noteq> []" by blast
    have j: "Join ts ''/'' \<noteq> []" using Join_Nil_iff [OF ne'] t by simp
    have "hd (Join ts ''/'') = hd (hd ts)" using hd_Join [OF t ne'] .
    moreover have "hd (hd ts) \<noteq> CHR ''/''"
    proof -
      from t obtain a r where ts: "ts = a # r" by (cases ts) auto
      with ne have a: "a \<noteq> []" "CHR ''/'' \<notin> set a" by auto
      from a(1) have "hd a \<in> set a" by (rule hd_in_set)
      with a(2) ts show ?thesis by auto
    qed
    ultimately have h: "hd (Join ts ''/'') \<noteq> CHR ''/''" by simp
    show ?thesis
      unfolding clearPath_def s1 using j h
      by (cases "Join ts ''/''") (auto simp: Let_def)
  qed
qed

text \<open>
  Claim C7.  \<open>clearPath\<close> maps each of the six inputs of the specification's table to
  the output given there.
\<close>

theorem clearPath_table:
  "clearPath ''/root/test/third'' = Inr ''/root/test/third''
   \<and> clearPath ''/root/test/third/..'' = Inr ''/root/test''
   \<and> clearPath ''/root/../third'' = Inr ''/third''
   \<and> clearPath ''/root/test/../third/forth/..'' = Inr ''/root/third''
   \<and> clearPath ''root/test/../third/forth/..'' = Inr ''root/third''
   \<and> clearPath ''root/test/third'' = Inr ''root/test/third''"
  by code_simp

text \<open>
  Claim C6, as amended.  For every input in which each \<open>..\<close> piece comes directly after
  a piece that is not \<open>..\<close> (so no \<open>..\<close> is the first piece and no two are adjacent), the
  result of \<open>splitAndClearPath\<close> has no element equal to \<open>..\<close>.
\<close>

theorem splitAndClearPath_no_dotdot:
  "dotdot_follows_name (segments s) \<Longrightarrow> ''..'' \<notin> set (splitAndClearPath s)"
  by (simp add: splitAndClearPath_collapse segments_def collapse_no_dotdot)

text \<open>The theorem at the input \<open>/root/test/../third/forth/..\<close>.\<close>

theorem splitAndClearPath_no_dotdot_witness:
  "dotdot_follows_name (segments ''/root/test/../third/forth/..'')
   \<and> ''..'' \<notin> set (splitAndClearPath ''/root/test/../third/forth/..'')"
proof -
  have h: "dotdot_follows_name (segments ''/root/test/../third/forth/..'')"
    by code_simp
  from splitAndClearPath_no_dotdot [OF h] h show ?thesis by simp
qed

text \<open>Claim C6 as stated fails: the input \<open>../a\<close> is not the bare string \<open>..\<close>, and
  the result for it is \<open>["..", "a"]\<close>.\<close>

theorem splitAndClearPath_keeps_dotdot: "''../a'' \<noteq> ''..'' \<and> ''..'' \<in> set (splitAndClearPath ''../a'')"
  by code_simp

text \<open>
  Claim C5, as amended.  For every non-empty string \<open>s\<close> for which \<open>splitAndClearPath s\<close>
  has no element equal to \<open>..\<close>, \<open>clearPath\<close> returns a path on \<open>s\<close> and returns that
  same path when applied to it again.
\<close>

theorem clearPath_idempotent_without_dotdot:
  assumes "s \<noteq> ''''" and "''..'' \<notin> set (splitAndClearPath s)"
  shows "\<exists>r. clearPath s = Inr r \<and> clearPath r = Inr r"
proof -
  let ?ts = "splitAndClearPath s"
  have sub: "set ?ts \<subseteq> set (Split s (CHR ''/'')) - {[]}"
    using collapse_subset [of "filter (\<lambda>item. item \<noteq> '''') (Split s (CHR ''/''))"]
    by (auto simp: splitAndClearPath_collapse)
  then have ne: "\<forall>p \<in> set ?ts. p \<noteq> [] \<and> CHR ''/'' \<notin> set p"
    using Split_no_sep by fastforce
  from assms(1) obtain c cs where s: "s = c # cs" by (cases s) auto
  show ?thesis
  proof (cases "s = ''..''")
    case True
    then show ?thesis by (simp add: clearPath_def)
  next
    case False
    show ?thesis
    proof (cases "c = CHR ''/''")
      case True
      with False s have "clearPath s = Inr (''/'' @ Join ?ts ''/'')"
        by (simp add: clearPath_def Let_def)
      with clearPath_fix(1) [OF ne assms(2)] show ?thesis by simp
    next
      case nc: False
      show ?thesis
      proof (cases "?ts = []")
        case True
        with False s nc have "clearPath s = Inr ''/''"
          by (simp add: clearPath_def Let_def)
        moreover have "clearPath ''/'' = Inr ''/''" by code_simp
        ultimately show ?thesis by simp
      next
        case t: False
        from ne have "\<forall>p \<in> set ?ts. p \<noteq> []" by blast
        with t have "Join ?ts ''/'' \<noteq> []" using Join_Nil_iff by blast
        with False s nc have "clearPath s = Inr (Join ?ts ''/'')"
          by (auto simp add: clearPath_def Let_def)
        with clearPath_fix(2) [OF ne assms(2) t] show ?thesis by simp
      qed
    qed
  qed
qed

text \<open>The theorem at the input \<open>/root/test/../third/forth/..\<close>.\<close>

theorem clearPath_idempotent_without_dotdot_witness:
  "''/root/test/../third/forth/..'' \<noteq> '''' \<and> ''..'' \<notin> set (splitAndClearPath ''/root/test/../third/forth/..'')
   \<and> clearPath ''/root/test/../third/forth/..'' = Inr ''/root/third''
   \<and> clearPath ''/root/third'' = Inr ''/root/third''"
proof -
  have h1: "''/root/test/../third/forth/..'' \<noteq> ''''" by simp
  have h2: "''..'' \<notin> set (splitAndClearPath ''/root/test/../third/forth/..'')" by code_simp
  have e: "clearPath ''/root/test/../third/forth/..'' = Inr ''/root/third''" by code_simp
  from clearPath_idempotent_without_dotdot [OF h1 h2] e h1 h2 show ?thesis by auto
qed

text \<open>Claim C5 as stated fails: \<open>a/b/../../c\<close> is cleaned to \<open>a/../c\<close>, which is not
  cleaned to itself.\<close>

theorem clearPath_not_idempotent:
  "clearPath ''a/b/../../c'' = Inr ''a/../c'' \<and> clearPath ''a/../c'' \<noteq> Inr ''a/../c''"
  by code_simp

section \<open>Properties of the session\<close>

subsection \<open>Statements sent, and the handlers that leave the identity alone\<close>

lemma commands_nth:
  "commands ! cmd_USER = ''USER''" "commands ! cmd_PASS = ''PASS''" "commands ! cmd_PWD = ''PWD''"
  "commands ! cmd_TYPE = ''TYPE''" "commands ! cmd_PASV = ''PASV''" "commands ! cmd_EPSV = ''EPSV''"
  "commands ! cmd_LIST = ''LIST''" "commands ! cmd_SYST = ''SYST''" "commands ! cmd_CWD = ''CWD''"
  "commands ! cmd_CDUP = ''CDUP''" "commands ! cmd_SIZE = ''SIZE''" "commands ! cmd_RETR = ''RETR''"
  "commands ! cmd_STOR = ''STOR''" "commands ! cmd_DELE = ''DELE''" "commands ! cmd_FEAT = ''FEAT''"
  "commands ! cmd_QUIT = ''QUIT''" "commands ! cmd_NOOP = ''NOOP''" "commands ! cmd_MKD = ''MKD''"
  "commands ! cmd_RMD = ''RMD''" "commands ! cmd_REST = ''REST''" "commands ! cmd_NLST = ''NLST''"
  by (simp_all add: commands_def cmd_USER_def cmd_PASS_def cmd_PWD_def cmd_TYPE_def cmd_PASV_def
      cmd_EPSV_def cmd_LIST_def cmd_SYST_def cmd_CWD_def cmd_CDUP_def cmd_SIZE_def cmd_RETR_def
      cmd_STOR_def cmd_DELE_def cmd_FEAT_def cmd_QUIT_def cmd_NOOP_def cmd_MKD_def cmd_RMD_def
      cmd_REST_def cmd_NLST_def)

lemma sendStatement_fields [simp]:
  "ses_id (sendStatement st S) = ses_id S"
  "lastREST (sendStatement st S) = lastREST S"
  "fileProvider (sendStatement st S) = fileProvider S"
  "lastDataChanneler (sendStatement st S) = lastDataChanneler S"
  "pa (sendStatement st S) = pa S"
  "authFunc (sendStatement st S) = authFunc S"
  "cert (sendStatement st S) = cert S"
  "conn_secure (sendStatement st S) = conn_secure S"
  "dataChannelEncryption (sendStatement st S) = dataChannelEncryption S"
  by (simp_all add: sendStatement_def Let_def)

lemma sendStatement_plain:
  assumes "st \<noteq> []" "last st \<noteq> CHR 0x0A"
  shows "sendStatement st S = S\<lparr>conn_out := conn_out S @ [st @ CRLF]\<rparr>"
proof -
  have "drop (length st - 2) st \<noteq> CRLF"
  proof
    assume e: "drop (length st - 2) st = CRLF"
    have "length st - 2 < length st" using assms(1) by (cases st) auto
    then have "last (drop (length st - 2) st) = last st" by (rule last_drop)
    with e assms(2) show False by (simp add: CRLF_def)
  qed
  then show ?thesis by (simp add: sendStatement_def)
qed

lemma close_dc_id: "close_dc dc S = Inr (dc', S') \<Longrightarrow> ses_id S' = ses_id S"
  by (cases "dataChannel_Close dc (pa S)") (auto simp: close_dc_def)

lemma Sink_id:
  assumes "\<And>X. ses_id (f X) = ses_id X" and "Sink E dc f S = Inr S'"
  shows "ses_id S' = ses_id S"
proof -
  let ?dc1 = "dc\<lparr>connection := True, listener := False\<rparr>"
  show ?thesis
  proof (cases "encrypted ?dc1 \<and> \<not> dc_cert ?dc1")
    case True
    with assms(2) obtain dc2 where "close_dc ?dc1 S = Inr (dc2, S')"
      by (cases "close_dc ?dc1 S") (auto simp: Sink_def Let_def split: if_splits)
    then show ?thesis by (rule close_dc_id)
  next
    case False
    let ?dc2 = "if encrypted ?dc1 then ?dc1\<lparr>secureConnection := True\<rparr> else ?dc1"
    from False assms(2) obtain dc3 S1 where c1: "close_dc ?dc2 (f S) = Inr (dc3, S1)"
      by (cases "close_dc ?dc2 (f S)") (auto simp: Sink_def Let_def split: if_splits)
    with False assms(2) obtain dc4 where c2: "close_dc dc3 S1 = Inr (dc4, S')"
      by (cases "close_dc dc3 S1") (auto simp: Sink_def Let_def split: if_splits)
    from close_dc_id [OF c2] close_dc_id [OF c1] assms(1) show ?thesis by simp
  qed
qed

lemma sink_last_id:
  assumes "\<And>X. ses_id (f X) = ses_id X" and "sink_last E f S = Inr (t, S')"
  shows "ses_id S' = ses_id S"
proof (cases "lastDataChanneler S")
  case None
  with assms(2) show ?thesis by (simp add: sink_last_def)
next
  case (Some dc)
  with assms(2) have "Sink E dc f (S\<lparr>lastDataChanneler := None\<rparr>) = Inr S'"
    by (cases "Sink E dc f (S\<lparr>lastDataChanneler := None\<rparr>)") (auto simp: sink_last_def)
  from Sink_id [OF assms(1) this] show ?thesis by simp
qed

lemma closures_id [simp]:
  "ses_id (retr_closure E f rest X) = ses_id X"
  "ses_id (stor_closure E f X) = ses_id X"
  "ses_id (list_closure E buf X) = ses_id X"
  by (auto simp: retr_closure_def stor_closure_def list_closure_def Let_def
      split: transfer.splits prod.splits option.splits)

lemma thenF_Inr: "thenF x f = Inr y \<Longrightarrow> \<exists>a. x = Inr a \<and> f a = Inr y"
  by (cases x) auto

lemma simple_handlers_id:
  "processSYST toks S = Inr (t, S') \<Longrightarrow> ses_id S' = ses_id S"
  "processQUIT toks S = Inr (t, S') \<Longrightarrow> ses_id S' = ses_id S"
  "processNOOP toks S = Inr (t, S') \<Longrightarrow> ses_id S' = ses_id S"
  "processFEAT toks S = Inr (t, S') \<Longrightarrow> ses_id S' = ses_id S"
  "processAUTH toks S = Inr (t, S') \<Longrightarrow> ses_id S' = ses_id S"
  "processPWD E toks S = Inr (t, S') \<Longrightarrow> ses_id S' = ses_id S"
  "processTYPE E toks S = Inr (t, S') \<Longrightarrow> ses_id S' = ses_id S"
  "processPROT E toks S = Inr (t, S') \<Longrightarrow> ses_id S' = ses_id S"
  "processREST E toks S = Inr (t, S') \<Longrightarrow> ses_id S' = ses_id S"
  by (auto simp: processSYST_def processQUIT_def processNOOP_def processFEAT_def processAUTH_def
      processPWD_def processTYPE_def processPROT_def processREST_def Let_def
      dest!: thenF_Inr split: if_splits option.splits prod.splits)

lemma processCWD_id: "processCWD E toks S = Inr (t, S') \<Longrightarrow> ses_id S' = ses_id S"
  by (auto simp: processCWD_def dest!: thenF_Inr split: if_splits option.splits prod.splits)

lemma processCDUP_id: "processCDUP E toks S = Inr (t, S') \<Longrightarrow> ses_id S' = ses_id S"
  unfolding processCDUP_def by (rule processCWD_id)

lemma processSIZE_id: "processSIZE E toks S = Inr (t, S') \<Longrightarrow> ses_id S' = ses_id S"
  by (auto simp: processSIZE_def dest!: thenF_Inr split: if_splits sum.splits)

lemma processMKD_id: "processMKD E toks S = Inr (t, S') \<Longrightarrow> ses_id S' = ses_id S"
  by (auto simp: processMKD_def Let_def dest!: thenF_Inr split: if_splits sum.splits option.splits)

lemma processRMD_id: "processRMD E toks S = Inr (t, S') \<Longrightarrow> ses_id S' = ses_id S"
  by (auto simp: processRMD_def Let_def dest!: thenF_Inr split: if_splits sum.splits option.splits)

lemma processDELE_id: "processDELE E toks S = Inr (t, S') \<Longrightarrow> ses_id S' = ses_id S"
  by (auto simp: processDELE_def Let_def dest!: thenF_Inr split: if_splits sum.splits option.splits)

lemma processRETR_id: "processRETR E toks S = Inr (t, S') \<Longrightarrow> ses_id S' = ses_id S"
  by (auto simp: processRETR_def Let_def dest!: thenF_Inr sink_last_id [rotated]
      split: if_splits sum.splits)

lemma processSTOR_id: "processSTOR E toks S = Inr (t, S') \<Longrightarrow> ses_id S' = ses_id S"
  by (auto simp: processSTOR_def Let_def dest!: thenF_Inr sink_last_id [rotated]
      split: if_splits sum.splits)

lemma processLIST_id: "processLIST E toks S = Inr (t, S') \<Longrightarrow> ses_id S' = ses_id S"
  by (auto simp: processLIST_def Let_def dest!: thenF_Inr sink_last_id [rotated]
      split: if_splits sum.splits option.splits)

lemma processNLST_id: "processNLST E toks S = Inr (t, S') \<Longrightarrow> ses_id S' = ses_id S"
  by (auto simp: processNLST_def Let_def dest!: thenF_Inr sink_last_id [rotated]
      split: if_splits sum.splits option.splits)

lemma retrievePassivePort_id:
  "retrievePassivePort E S = Inr (err, S') \<Longrightarrow> ses_id S' = ses_id S"
  by (auto simp: retrievePassivePort_def dest!: thenF_Inr close_dc_id
      split: option.splits sum.splits)

lemma processPASV_id: "processPASV E toks S = Inr (t, S') \<Longrightarrow> ses_id S' = ses_id S"
  by (auto simp: processPASV_def Let_def dest!: thenF_Inr retrievePassivePort_id
      split: sum.splits option.splits prod.splits)

lemma processEPSV_id: "processEPSV E toks S = Inr (t, S') \<Longrightarrow> ses_id S' = ses_id S"
  by (auto simp: processEPSV_def Let_def dest!: thenF_Inr retrievePassivePort_id
      split: sum.splits option.splits prod.splits)

lemma processUSER_auth:
  "processUSER toks S = Inr (t, S') \<Longrightarrow> isAuthenticated (ses_id S') = isAuthenticated (ses_id S)"
  by (auto simp: processUSER_def Let_def split: if_splits)

lemma processPASS_auth:
  "processPASS toks S = Inr (t, S') \<Longrightarrow> isAuthenticated (ses_id S) \<Longrightarrow>
   isAuthenticated (ses_id S') \<or> (2 \<le> length toks \<and> \<not> authFunc S (username (ses_id S)) (toks ! 1))"
  by (auto simp: processPASS_def Let_def split: if_splits)

lemma run_pe_auth:
  assumes "run_pe E p toks S = Inr (t, S')" and "p \<noteq> Proc_PASS"
  shows "isAuthenticated (ses_id S') = isAuthenticated (ses_id S)"
  using assms
  by (cases p)
     (auto dest: simple_handlers_id processCWD_id processCDUP_id processSIZE_id processMKD_id
        processRMD_id processDELE_id processRETR_id processSTOR_id processLIST_id processNLST_id
        processPASV_id processEPSV_id processUSER_auth)

subsection \<open>The pipeline and the dispatch\<close>

lemma pipeline_tokens [simp]:
  "tokens (requireAuth c) = tokens c" "tokens (requirePASV c) = tokens c"
  "tokens (resetREST c) = tokens c" "tokens (resetUSER c) = tokens c"
  "tokens (newCmdList S toks p) = toks"
  by (simp_all add: requireAuth_def requirePASV_def resetREST_def resetUSER_def newCmdList_def)

lemma pipeline_auth [simp]:
  "isAuthenticated (ses_id (ses (requireAuth c))) = isAuthenticated (ses_id (ses c))"
  "isAuthenticated (ses_id (ses (requirePASV c))) = isAuthenticated (ses_id (ses c))"
  "isAuthenticated (ses_id (ses (resetREST c))) = isAuthenticated (ses_id (ses c))"
  "isAuthenticated (ses_id (ses (resetUSER c))) = isAuthenticated (ses_id (ses c))"
  "ses (newCmdList S toks p) = S"
  by (simp_all add: requireAuth_def requirePASV_def resetREST_def resetUSER_def newCmdList_def)

lemma pipeline_authFunc [simp]:
  "authFunc (ses (requireAuth c)) = authFunc (ses c)"
  "authFunc (ses (requirePASV c)) = authFunc (ses c)"
  "authFunc (ses (resetREST c)) = authFunc (ses c)"
  "authFunc (ses (resetUSER c)) = authFunc (ses c)"
  by (simp_all add: requireAuth_def requirePASV_def resetREST_def resetUSER_def)

lemma pipeline_pe:
  "pe (requireAuth c) = Some p \<Longrightarrow> pe c = Some p"
  "pe (requirePASV c) = Some p \<Longrightarrow> pe c = Some p"
  "pe (resetREST c) = pe c"
  "pe (resetUSER c) = pe c"
  "pe (newCmdList S toks q) = Some q"
  by (auto simp: requireAuth_def requirePASV_def resetREST_def resetUSER_def newCmdList_def
      split: if_splits)

lemma resetREST_id [simp]: "ses_id (ses (resetREST c)) = ses_id (ses c)"
  by (simp add: resetREST_def)

lemma build_cmdlist_facts:
  assumes "build_cmdlist S toks = Some cmd"
  shows "tokens cmd = toks"
    and "isAuthenticated (ses_id (ses cmd)) = isAuthenticated (ses_id S)"
    and "authFunc (ses cmd) = authFunc S"
    and "pe cmd = Some Proc_PASS \<Longrightarrow> toks ! 0 = ''PASS'' \<and> ses_id (ses cmd) = ses_id S"
  using assms
  by (auto simp: build_cmdlist_def Let_def commands_nth pipeline_pe(3,4,5)
      dest!: pipeline_pe(1,2) split: if_splits)

lemma Handle_tokens_auth_step:
  assumes a: "isAuthenticated (ses_id S)" and h: "Handle_tokens E S toks = Inr (t, S')"
  shows "isAuthenticated (ses_id S') \<or>
         (toks ! 0 = ''PASS'' \<and> 2 \<le> length toks \<and> \<not> authFunc S (username (ses_id S)) (toks ! 1))"
proof (cases "length toks < 1")
  case True
  with h a show ?thesis by (simp add: Handle_tokens_def)
next
  case False
  show ?thesis
  proof (cases "build_cmdlist S toks")
    case None
    with False h a show ?thesis by (auto simp: Handle_tokens_def)
  next
    case (Some cmd)
    note f = build_cmdlist_facts [OF Some]
    from False h Some have e: "Execute E cmd = Inr (t, S')" by (simp add: Handle_tokens_def)
    show ?thesis
    proof (cases "pe cmd")
      case None
      with e f(2) a show ?thesis by (auto simp: Execute_def)
    next
      case (Some p)
      with e f(1) have r: "run_pe E p toks (ses cmd) = Inr (t, S')" by (simp add: Execute_def)
      show ?thesis
      proof (cases "p = Proc_PASS")
        case True
        with Some f(4) have g: "toks ! 0 = ''PASS''" "ses_id (ses cmd) = ses_id S" by auto
        from r True have "processPASS toks (ses cmd) = Inr (t, S')" by simp
        from processPASS_auth [OF this] a g f(3) show ?thesis by auto
      next
        case False
        from run_pe_auth [OF r False] f(2) a show ?thesis by simp
      qed
    qed
  qed
qed

lemma USER_while_authenticated:
  assumes a: "isAuthenticated (ses_id S)"
  shows "Handle_tokens E S [''USER'', name] =
           Inr (False, S\<lparr>lastREST := 0,
                         ses_id := \<lparr>username = name, isAuthenticated = True\<rparr>,
                         conn_out := conn_out S @ [''331 Password required for '' @ name @ ''.'' @ CRLF]\<rparr>)"
proof -
  have b: "build_cmdlist S [''USER'', name] = Some (resetREST (newCmdList S [''USER'', name] Proc_USER))"
    by (simp add: build_cmdlist_def commands_nth)
  from a have i: "(ses_id S)\<lparr>username := name\<rparr> = \<lparr>username = name, isAuthenticated = True\<rparr>"
    by (cases "ses_id S") simp
  show ?thesis
    using i
    by (simp add: Handle_tokens_def b Execute_def resetREST_def newCmdList_def processUSER_def Let_def
        sendStatement_plain)
qed

lemma Handle_loop_keeps_authenticated:
  assumes "Handle_loop E S cmds = Inr S'" and "isAuthenticated (ses_id S)"
    and "list_all (\<lambda>toks. toks ! 0 \<noteq> ''PASS'') cmds"
  shows "isAuthenticated (ses_id S')"
  using assms
proof (induction cmds arbitrary: S)
  case Nil
  then show ?case by simp
next
  case (Cons toks rest)
  from Cons.prems(1) obtain t S1 where h: "Handle_tokens E S toks = Inr (t, S1)"
    by (cases "Handle_tokens E S toks") auto
  from Handle_tokens_auth_step [OF Cons.prems(2) h] Cons.prems(3)
  have a1: "isAuthenticated (ses_id S1)" by auto
  show ?case
  proof (cases t)
    case True
    with Cons.prems(1) h a1 show ?thesis by simp
  next
    case False
    with Cons.prems(1) h have "Handle_loop E S1 rest = Inr S'" by simp
    from Cons.IH [OF this a1] Cons.prems(3) show ?thesis by simp
  qed
qed

subsection \<open>The concrete server\<close>

lemmas pipeline_defs = requireAuth_def requirePASV_def resetREST_def resetUSER_def newCmdList_def
  Execute_def IsClosed_def

lemma send_literal:
  "sendStatement ''530 Please login with USER and PASS.'' X =
     X\<lparr>conn_out := conn_out X @ [''530 Please login with USER and PASS.'' @ CRLF]\<rparr>"
  "sendStatement ''502 not implemented'' X = X\<lparr>conn_out := conn_out X @ [''502 not implemented'' @ CRLF]\<rparr>"
  "sendStatement ''350 start position moved successfully'' X =
     X\<lparr>conn_out := conn_out X @ [''350 start position moved successfully'' @ CRLF]\<rparr>"
  by (rule sendStatement_plain; simp)+

lemma digits_small: "n < 10 \<Longrightarrow> digits n = [digit_char n]"
  by (simp add: digits.simps)

lemma itoa_10000: "itoa 10000 = ''10000''"
  by (simp add: itoa_def digits.simps digit_char_def)

lemma portassigner_New_demo: "portassigner_New 10000 10002 = pool_fresh"
  by (simp add: portassigner_New_def pool_fresh_def numeral_2_eq_2)

lemma AssignPort_demo: "AssignPort (\<lambda>p. None) pool_fresh = Inr (Inr 10000, pool_one_assigned)"
  by (simp add: AssignPort_def pool_fresh_def pool_one_assigned_def upt_rec)

lemma datachannel_New_demo:
  "datachannel_New (\<lambda>p. None) pool_fresh False False = Inr (Inr dc_10000, pool_one_assigned)"
  by (simp add: datachannel_New_def AssignPort_demo dc_10000_def)

lemma fresh_session_demo:
  "fresh_session auth =
     \<lparr>conn_secure = False, conn_out = [], cert = False,
      ses_id = \<lparr>username = '''', isAuthenticated = False\<rparr>,
      pa = pool_fresh, lastDataChanneler = None, authFunc = auth,
      fileProvider = \<lparr>homeRealDirectory = ''/srv/ftp'', currentRealDirectory = ''/srv/ftp''\<rparr>,
      dataChannelEncryption = False, lastREST = 0\<rparr>"
  by (simp add: fresh_session_def session_New_def portassigner_New_demo)

lemma demo_env_fields [simp]:
  "net_Listen demo_env = (\<lambda>p. None)"
  "fp_CurrentDirectory demo_env = localFS_CurrentDirectory"
  "fp_ChangeDirectory demo_env = localFS_ChangeDirectory disk0"
  "fp_List demo_env = localFS_List disk0"
  by (simp_all add: demo_env_def localFS_env_def)

lemma ready_session_reached:
  "Handle_loop demo_env (fresh_session login_auth)
     [[''USER'', ''bob''], [''PASS'', ''secret''], [''EPSV'']] = Inr ready_session"
  by (simp add: Handle_tokens_def build_cmdlist_def commands_nth pipeline_defs
      processUSER_def processPASS_def processEPSV_def retrievePassivePort_def
      datachannel_New_demo Open_def Port_def itoa_10000 dc_10000_def
      fresh_session_demo login_auth_def ready_session_def
      sendStatement_plain Let_def)

lemma ready_session_fields [simp]:
  "isAuthenticated (ses_id ready_session)"
  "lastREST ready_session = 0"
  "fileProvider ready_session = \<lparr>homeRealDirectory = ''/srv/ftp'', currentRealDirectory = ''/srv/ftp''\<rparr>"
  "lastDataChanneler ready_session = Some (dc_10000\<lparr>listener := True, fncChan := True\<rparr>)"
  by (simp_all add: ready_session_def fresh_session_demo)

lemma ready_session_resets:
  "ready_session\<lparr>lastREST := 0\<rparr> = ready_session"
  by (simp add: ready_session_def fresh_session_demo)

subsection \<open>Commands that need a login\<close>

lemma gate_closed:
  assumes n: "toks \<noteq> []" and a: "toks ! 0 \<in> set auth_commands" and u: "\<not> isAuthenticated (ses_id S)"
  shows "(\<exists>cmd. build_cmdlist S toks = Some cmd \<and> pe cmd = None)"
    and "Handle_tokens E S toks =
           Inr (False, S\<lparr>conn_out := conn_out S @ [''530 Please login with USER and PASS.'' @ CRLF],
                         ses_id := (ses_id S)\<lparr>username := ''''\<rparr>,
                         lastREST := (if toks ! 0 = ''RETR'' then lastREST S else 0)\<rparr>)"
proof -
  from n have l: "\<not> length toks < 1" by (cases toks) auto
  from a u show "\<exists>cmd. build_cmdlist S toks = Some cmd \<and> pe cmd = None"
    by (auto simp: auth_commands_def build_cmdlist_def commands_nth pipeline_defs)
  from a u l show "Handle_tokens E S toks =
           Inr (False, S\<lparr>conn_out := conn_out S @ [''530 Please login with USER and PASS.'' @ CRLF],
                         ses_id := (ses_id S)\<lparr>username := ''''\<rparr>,
                         lastREST := (if toks ! 0 = ''RETR'' then lastREST S else 0)\<rparr>)"
    by (auto simp: auth_commands_def Handle_tokens_def build_cmdlist_def commands_nth pipeline_defs
        send_literal)
qed

lemma gate_open:
  assumes n: "toks \<noteq> []"
  shows "toks ! 0 = ''USER'' \<Longrightarrow> Handle_tokens E S toks = processUSER toks (S\<lparr>lastREST := 0\<rparr>)"
    and "toks ! 0 = ''PASS'' \<Longrightarrow> Handle_tokens E S toks = processPASS toks (S\<lparr>lastREST := 0\<rparr>)"
    and "toks ! 0 = ''SYST'' \<Longrightarrow>
           Handle_tokens E S toks = processSYST toks (ses (resetREST (resetUSER (newCmdList S toks Proc_SYST))))"
    and "toks ! 0 = ''QUIT'' \<Longrightarrow>
           Handle_tokens E S toks = processQUIT toks (ses (resetREST (resetUSER (newCmdList S toks Proc_QUIT))))"
    and "toks ! 0 = ''NOOP'' \<Longrightarrow>
           Handle_tokens E S toks = processNOOP toks (ses (resetREST (resetUSER (newCmdList S toks Proc_NOOP))))"
    and "toks ! 0 = ''AUTH'' \<Longrightarrow>
           Handle_tokens E S toks = processAUTH toks (ses (resetREST (resetUSER (newCmdList S toks Proc_AUTH))))"
proof -
  from n have l: "\<not> length toks < 1" by (cases toks) auto
  show "toks ! 0 = ''USER'' \<Longrightarrow> Handle_tokens E S toks = processUSER toks (S\<lparr>lastREST := 0\<rparr>)"
    using l by (simp add: Handle_tokens_def build_cmdlist_def commands_nth pipeline_defs)
  show "toks ! 0 = ''PASS'' \<Longrightarrow> Handle_tokens E S toks = processPASS toks (S\<lparr>lastREST := 0\<rparr>)"
    using l by (simp add: Handle_tokens_def build_cmdlist_def commands_nth pipeline_defs)
  show "toks ! 0 = ''SYST'' \<Longrightarrow>
           Handle_tokens E S toks = processSYST toks (ses (resetREST (resetUSER (newCmdList S toks Proc_SYST))))"
    using l by (simp add: Handle_tokens_def build_cmdlist_def commands_nth Execute_def pipeline_pe)
  show "toks ! 0 = ''QUIT'' \<Longrightarrow>
           Handle_tokens E S toks = processQUIT toks (ses (resetREST (resetUSER (newCmdList S toks Proc_QUIT))))"
    using l by (simp add: Handle_tokens_def build_cmdlist_def commands_nth Execute_def pipeline_pe)
  show "toks ! 0 = ''NOOP'' \<Longrightarrow>
           Handle_tokens E S toks = processNOOP toks (ses (resetREST (resetUSER (newCmdList S toks Proc_NOOP))))"
    using l by (simp add: Handle_tokens_def build_cmdlist_def commands_nth Execute_def pipeline_pe)
  show "toks ! 0 = ''AUTH'' \<Longrightarrow>
           Handle_tokens E S toks = processAUTH toks (ses (resetREST (resetUSER (newCmdList S toks Proc_AUTH))))"
    using l by (simp add: Handle_tokens_def build_cmdlist_def commands_nth Execute_def pipeline_pe)
qed

lemma gate_unknown:
  assumes n: "toks \<noteq> []" and k: "toks ! 0 \<notin> set auth_commands \<union> set open_commands"
  shows "build_cmdlist S toks = None"
    and "Handle_tokens E S toks = Inr (False, S\<lparr>conn_out := conn_out S @ [''502 not implemented'' @ CRLF]\<rparr>)"
proof -
  from n have l: "\<not> length toks < 1" by (cases toks) auto
  from k show b: "build_cmdlist S toks = None"
    by (simp add: auth_commands_def open_commands_def build_cmdlist_def commands_nth)
  with l show "Handle_tokens E S toks = Inr (False, S\<lparr>conn_out := conn_out S @ [''502 not implemented'' @ CRLF]\<rparr>)"
    by (simp add: Handle_tokens_def send_literal)
qed

text \<open>
  Claim C1, as amended.  For every received command: if its first token is one of PWD,
  TYPE, PASV, EPSV, LIST, CWD, CDUP, SIZE, RETR, STOR, FEAT, MKD, RMD, DELE, REST, NLST,
  PROT and the session is not authenticated, the handler is not run (\<open>pe\<close> is nil when
  \<open>Execute\<close> is called), the only reply is \<open>530 Please login with USER and PASS.\<close>, and
  the loop goes on; if it is one of USER, PASS, SYST, QUIT, NOOP, AUTH, the result is that
  of the command's handler whatever the authenticated flag is; and any other first token
  gets the reply \<open>502 not implemented\<close> and no handler.
\<close>

theorem login_gate:
  assumes "toks \<noteq> []"
  shows "(toks ! 0 \<in> set auth_commands \<and> \<not> isAuthenticated (ses_id S) \<longrightarrow>
            (\<exists>cmd. build_cmdlist S toks = Some cmd \<and> pe cmd = None) \<and>
            Handle_tokens E S toks =
              Inr (False, S\<lparr>conn_out := conn_out S @ [''530 Please login with USER and PASS.'' @ CRLF],
                            ses_id := (ses_id S)\<lparr>username := ''''\<rparr>,
                            lastREST := (if toks ! 0 = ''RETR'' then lastREST S else 0)\<rparr>))
       \<and> (toks ! 0 = ''USER'' \<longrightarrow> Handle_tokens E S toks = processUSER toks (S\<lparr>lastREST := 0\<rparr>))
       \<and> (toks ! 0 = ''PASS'' \<longrightarrow> Handle_tokens E S toks = processPASS toks (S\<lparr>lastREST := 0\<rparr>))
       \<and> (toks ! 0 = ''SYST'' \<longrightarrow>
            Handle_tokens E S toks = processSYST toks (ses (resetREST (resetUSER (newCmdList S toks Proc_SYST)))))
       \<and> (toks ! 0 = ''QUIT'' \<longrightarrow>
            Handle_tokens E S toks = processQUIT toks (ses (resetREST (resetUSER (newCmdList S toks Proc_QUIT)))))
       \<and> (toks ! 0 = ''NOOP'' \<longrightarrow>
            Handle_tokens E S toks = processNOOP toks (ses (resetREST (resetUSER (newCmdList S toks Proc_NOOP)))))
       \<and> (toks ! 0 = ''AUTH'' \<longrightarrow>
            Handle_tokens E S toks = processAUTH toks (ses (resetREST (resetUSER (newCmdList S toks Proc_AUTH)))))
       \<and> (toks ! 0 \<notin> set auth_commands \<union> set open_commands \<longrightarrow>
            build_cmdlist S toks = None \<and>
            Handle_tokens E S toks = Inr (False, S\<lparr>conn_out := conn_out S @ [''502 not implemented'' @ CRLF]\<rparr>))"
  using gate_closed [OF assms] gate_open [OF assms] gate_unknown [OF assms]
  by (intro conjI impI) blast+

text \<open>
  The theorem at an unauthenticated session of the concrete server, for the commands
  \<open>PWD\<close>, \<open>NOOP\<close> and \<open>XYZ\<close>.
\<close>

theorem login_gate_witness:
  "[''PWD''] \<noteq> [] \<and> [''PWD''] ! 0 \<in> set auth_commands
   \<and> \<not> isAuthenticated (ses_id (fresh_session login_auth))
   \<and> Handle_tokens demo_env (fresh_session login_auth) [''PWD''] =
       Inr (False, (fresh_session login_auth)
              \<lparr>conn_out := conn_out (fresh_session login_auth) @ [''530 Please login with USER and PASS.'' @ CRLF],
               ses_id := (ses_id (fresh_session login_auth))\<lparr>username := ''''\<rparr>,
               lastREST := 0\<rparr>)
   \<and> [''NOOP''] ! 0 = ''NOOP''
   \<and> Handle_tokens demo_env (fresh_session login_auth) [''NOOP''] =
       processNOOP [''NOOP''] (ses (resetREST (resetUSER (newCmdList (fresh_session login_auth) [''NOOP''] Proc_NOOP))))
   \<and> [''XYZ''] ! 0 \<notin> set auth_commands \<union> set open_commands
   \<and> Handle_tokens demo_env (fresh_session login_auth) [''XYZ''] =
       Inr (False, (fresh_session login_auth)
              \<lparr>conn_out := conn_out (fresh_session login_auth) @ [''502 not implemented'' @ CRLF]\<rparr>)"
proof -
  have h1: "[''PWD''] \<noteq> []" "[''NOOP''] \<noteq> []" "[''XYZ''] \<noteq> []" by simp_all
  have h2: "[''PWD''] ! 0 \<in> set auth_commands" by (simp add: auth_commands_def)
  have h3: "\<not> isAuthenticated (ses_id (fresh_session login_auth))" by (simp add: fresh_session_demo)
  have h4: "[''NOOP''] ! 0 = ''NOOP''" by simp
  have h5: "[''XYZ''] ! 0 \<notin> set auth_commands \<union> set open_commands"
    by (simp add: auth_commands_def open_commands_def)
  have r: "[''PWD''] ! 0 \<noteq> ''RETR''" by simp
  from login_gate [OF h1(1), where S = "fresh_session login_auth" and E = demo_env]
       login_gate [OF h1(2), where S = "fresh_session login_auth" and E = demo_env]
       login_gate [OF h1(3), where S = "fresh_session login_auth" and E = demo_env]
       h1 h2 h3 h4 h5 r
  show ?thesis by presburger
qed

text \<open>
  Claim C1 as stated fails: FEAT is in the claim's list of commands that run without
  login, but an unauthenticated \<open>FEAT\<close> gets the 530 reply and its handler is not run;
  and \<open>XYZ\<close>, which is not in the list, gets 502 and not 530.
\<close>

theorem FEAT_needs_login:
  "\<not> isAuthenticated (ses_id (fresh_session login_auth))
   \<and> Handle_tokens demo_env (fresh_session login_auth) [''FEAT''] =
       Inr (False, (fresh_session login_auth)
              \<lparr>conn_out := [''530 Please login with USER and PASS.'' @ CRLF]\<rparr>)
   \<and> processFEAT [''FEAT''] (fresh_session login_auth) \<noteq> Handle_tokens demo_env (fresh_session login_auth) [''FEAT'']
   \<and> map_option pe (build_cmdlist (fresh_session login_auth) [''FEAT'']) = Some None
   \<and> Handle_tokens demo_env (fresh_session login_auth) [''XYZ''] =
       Inr (False, (fresh_session login_auth)\<lparr>conn_out := [''502 not implemented'' @ CRLF]\<rparr>)"
proof -
  have h3: "\<not> isAuthenticated (ses_id (fresh_session login_auth))" by (simp add: fresh_session_demo)
  have a: "[''FEAT''] ! 0 \<in> set auth_commands" by (simp add: auth_commands_def)
  have k: "[''XYZ''] ! 0 \<notin> set auth_commands \<union> set open_commands"
    by (simp add: auth_commands_def open_commands_def)
  have f: "Handle_tokens demo_env (fresh_session login_auth) [''FEAT''] =
       Inr (False, (fresh_session login_auth)
              \<lparr>conn_out := [''530 Please login with USER and PASS.'' @ CRLF]\<rparr>)"
    using gate_closed(2) [OF _ a h3, where E = demo_env] by (simp add: fresh_session_demo)
  have x: "Handle_tokens demo_env (fresh_session login_auth) [''XYZ''] =
       Inr (False, (fresh_session login_auth)\<lparr>conn_out := [''502 not implemented'' @ CRLF]\<rparr>)"
    using gate_unknown(2) [OF _ k, where S = "fresh_session login_auth" and E = demo_env] by (simp add: fresh_session_demo)
  have p: "map_option pe (build_cmdlist (fresh_session login_auth) [''FEAT'']) = Some None"
    using gate_closed(1) [OF _ a h3] by auto
  have d: "processFEAT [''FEAT''] (fresh_session login_auth)
           \<noteq> Inr (False, (fresh_session login_auth)\<lparr>conn_out := [''530 Please login with USER and PASS.'' @ CRLF]\<rparr>)"
    by (simp add: processFEAT_def fresh_session_demo sendStatement_def CRLF_def)
  from h3 f x p d show ?thesis by simp
qed

subsection \<open>PASS and USER\<close>

text \<open>
  Claim C9.  For every PASS command with an argument for which the authenticator returns
  false on the stored user name, the session replies \<open>530 Password Rejected\<close> and the
  identity afterwards is the empty user name with \<open>authenticated = false\<close>, whatever user
  name was stored before.
\<close>

theorem failed_PASS_clears_identity:
  assumes "toks ! 0 = ''PASS''" and "2 \<le> length toks"
    and "\<not> authFunc S (username (ses_id S)) (toks ! 1)"
  shows "Handle_tokens E S toks =
           Inr (False, S\<lparr>lastREST := 0,
                         ses_id := \<lparr>username = '''', isAuthenticated = False\<rparr>,
                         conn_out := conn_out S @ [''530 Password Rejected'' @ CRLF]\<rparr>)"
proof -
  have b: "build_cmdlist S toks = Some (resetREST (newCmdList S toks Proc_PASS))"
    using assms(1) by (simp add: build_cmdlist_def commands_nth)
  from assms(2) have n: "\<not> length toks < 1" "\<not> length toks < 2" by auto
  have i: "(ses_id S)\<lparr>isAuthenticated := False, username := ''''\<rparr> = \<lparr>username = '''', isAuthenticated = False\<rparr>"
    by (cases "ses_id S") simp
  show ?thesis
    using assms(3) i n
    by (simp add: Handle_tokens_def b Execute_def resetREST_def newCmdList_def processPASS_def Let_def
        sendStatement_plain)
qed

text \<open>
  The theorem at the session of \<open>bob\<close> and the command \<open>PASS bad\<close>.
\<close>

theorem failed_PASS_clears_identity_witness:
  "[''PASS'', ''bad''] ! 0 = ''PASS'' \<and> 2 \<le> length [''PASS'', ''bad'']
   \<and> username (ses_id ready_session) = ''bob''
   \<and> \<not> authFunc ready_session (username (ses_id ready_session)) ([''PASS'', ''bad''] ! 1)
   \<and> Handle_tokens demo_env ready_session [''PASS'', ''bad''] =
       Inr (False, ready_session
              \<lparr>lastREST := 0,
               ses_id := \<lparr>username = '''', isAuthenticated = False\<rparr>,
               conn_out := conn_out ready_session @ [''530 Password Rejected'' @ CRLF]\<rparr>)"
proof -
  have h1: "[''PASS'', ''bad''] ! 0 = ''PASS''" by simp
  have h2: "2 \<le> length [''PASS'', ''bad'']" by simp
  have h3: "\<not> authFunc ready_session (username (ses_id ready_session)) ([''PASS'', ''bad''] ! 1)"
    by (simp add: ready_session_def fresh_session_demo login_auth_def)
  have u: "username (ses_id ready_session) = ''bob''" by (simp add: ready_session_def)
  from failed_PASS_clears_identity [OF h1 h2 h3, where E = demo_env] h1 h2 h3 u show ?thesis by blast
qed

text \<open>
  Claim C10.  In an authenticated session, a command that returns leaves the session
  authenticated unless it is a PASS with an argument that the authenticator rejects; and
  \<open>USER name\<close> replaces the stored user name, replies 331 and leaves the session
  authenticated.
\<close>

theorem authenticated_is_kept:
  assumes "isAuthenticated (ses_id S)"
  shows "(\<forall>toks t S'. Handle_tokens E S toks = Inr (t, S') \<longrightarrow>
            isAuthenticated (ses_id S') \<or>
            (toks ! 0 = ''PASS'' \<and> 2 \<le> length toks \<and> \<not> authFunc S (username (ses_id S)) (toks ! 1)))
       \<and> (\<forall>name. Handle_tokens E S [''USER'', name] =
            Inr (False, S\<lparr>lastREST := 0,
                          ses_id := \<lparr>username = name, isAuthenticated = True\<rparr>,
                          conn_out := conn_out S @ [''331 Password required for '' @ name @ ''.'' @ CRLF]\<rparr>))"
  using Handle_tokens_auth_step [OF assms] USER_while_authenticated [OF assms] by blast

text \<open>
  The theorem at the session of \<open>bob\<close> and the command \<open>USER eve\<close>.
\<close>

theorem authenticated_is_kept_witness:
  "isAuthenticated (ses_id ready_session)
   \<and> Handle_tokens demo_env ready_session [''USER'', ''eve''] =
       Inr (False, ready_session
              \<lparr>lastREST := 0,
               ses_id := \<lparr>username = ''eve'', isAuthenticated = True\<rparr>,
               conn_out := conn_out ready_session @ [''331 Password required for '' @ ''eve'' @ ''.'' @ CRLF]\<rparr>)
   \<and> isAuthenticated (ses_id (ready_session
              \<lparr>lastREST := 0,
               ses_id := \<lparr>username = ''eve'', isAuthenticated = True\<rparr>,
               conn_out := conn_out ready_session @ [''331 Password required for '' @ ''eve'' @ ''.'' @ CRLF]\<rparr>))"
proof -
  have h: "isAuthenticated (ses_id ready_session)" by simp
  have n: "[''USER'', ''eve''] ! 0 \<noteq> ''PASS''" by simp
  from authenticated_is_kept [OF h, where E = demo_env] h n show ?thesis by blast
qed

subsection \<open>REST\<close>

lemma Sscanf_decimal:
  "decimal n \<Longrightarrow> Sscanf_percent_d E n = (Some ''input does not match format'', None)"
  by (cases n) (auto simp: decimal_def Sscanf_percent_d_def isSpace_def)

lemma REST_decimal:
  assumes "decimal n" and "isAuthenticated (ses_id S)"
    and "lastDataChanneler S = Some dc" and "port dc \<noteq> 0"
  shows "Handle_tokens E S [''REST'', n] =
           Inr (False, S\<lparr>lastREST := 0,
                         conn_out := conn_out S @ [''550 syntax error (input does not match format)'' @ CRLF]\<rparr>)"
proof -
  from assms(2-4) have b: "build_cmdlist S [''REST'', n] =
      Some (newCmdList (S\<lparr>lastREST := 0\<rparr>) [''REST'', n] Proc_REST)"
    by (simp add: build_cmdlist_def commands_nth pipeline_defs)
  show ?thesis
    by (simp add: Handle_tokens_def b Execute_def newCmdList_def processREST_def
        Sscanf_decimal [OF assms(1)] sendStatement_plain)
qed

text \<open>
  Claim C2 does not hold of the code.  In the authenticated session with an open data
  channel, \<open>REST 5\<close> is answered with \<open>550 syntax error (input does not match format)\<close>
  and the pending offset stays 0: the arguments of \<open>fmt.Sscanf\<close> are swapped
  (lemma \<open>REST_decimal\<close> has the same for every decimal argument).
\<close>

theorem REST_5_rejected:
  "isAuthenticated (ses_id ready_session)
   \<and> (case lastDataChanneler ready_session of None \<Rightarrow> False | Some dc \<Rightarrow> \<not> IsClosed dc)
   \<and> Handle_tokens demo_env ready_session [''REST'', ''5''] =
       Inr (False, ready_session
              \<lparr>conn_out := conn_out ready_session @
                 [''550 syntax error (input does not match format)'' @ CRLF]\<rparr>)
   \<and> lastREST ready_session = 0"
proof -
  have d: "decimal ''5''" by (simp add: decimal_def)
  have q: "port (dc_10000\<lparr>listener := True, fncChan := True\<rparr>) \<noteq> 0" by (simp add: dc_10000_def)
  have "Handle_tokens demo_env ready_session [''REST'', ''5''] =
       Inr (False, ready_session\<lparr>lastREST := 0,
              conn_out := conn_out ready_session @
                 [''550 syntax error (input does not match format)'' @ CRLF]\<rparr>)"
    by (rule REST_decimal [OF d _ _ q]) simp_all
  then show ?thesis
    by (simp add: ready_session_resets IsClosed_def dc_10000_def)
qed

subsection \<open>LIST\<close>

lemma Join_private: "filepath_Join ''/srv/ftp'' ''private'' = ''/srv/ftp/private''"
  by code_simp

lemma cwd_home:
  "localFS_CurrentDirectory \<lparr>homeRealDirectory = ''/srv/ftp'', currentRealDirectory = ''/srv/ftp''\<rparr> = Inr ''/''"
  by code_simp

lemma cwd_private:
  "localFS_CurrentDirectory \<lparr>homeRealDirectory = ''/srv/ftp'', currentRealDirectory = ''/srv/ftp/private''\<rparr>
     = Inr ''/private''"
  by code_simp

lemma cd_private:
  "localFS_ChangeDirectory disk0 ''private'' \<lparr>homeRealDirectory = ''/srv/ftp'', currentRealDirectory = ''/srv/ftp''\<rparr>
     = Inr (None, \<lparr>homeRealDirectory = ''/srv/ftp'', currentRealDirectory = ''/srv/ftp/private''\<rparr>)"
  by (simp add: localFS_ChangeDirectory_def Join_private disk0_def dir_info_def)

lemma list_private:
  "localFS_List disk0 \<lparr>homeRealDirectory = ''/srv/ftp'', currentRealDirectory = ''/srv/ftp/private''\<rparr>
     = Inr (Inl ''open /srv/ftp/private: permission denied'')"
  by (simp add: localFS_List_def disk0_def)

text \<open>
  Claim C8 does not hold of the code.  In the session at directory \<open>/\<close>,
  \<open>LIST private\<close> changes into \<open>/private\<close>, the listing fails, and the handler returns
  after its 451 reply without changing back: the current directory is \<open>/private\<close>.
\<close>

theorem LIST_failure_keeps_directory:
  "fp_CurrentDirectory demo_env (fileProvider ready_session) = Inr ''/''
   \<and> Handle_tokens demo_env ready_session [''LIST'', ''private''] =
       Inr (False, ready_session
              \<lparr>fileProvider := \<lparr>homeRealDirectory = ''/srv/ftp'', currentRealDirectory = ''/srv/ftp/private''\<rparr>,
               conn_out := conn_out ready_session @
                 [''451 cannot retrieve directory list: open /srv/ftp/private: permission denied'' @ CRLF]\<rparr>)
   \<and> fp_CurrentDirectory demo_env
         \<lparr>homeRealDirectory = ''/srv/ftp'', currentRealDirectory = ''/srv/ftp/private''\<rparr> = Inr ''/private''"
proof -
  have b: "build_cmdlist ready_session [''LIST'', ''private''] =
           Some (newCmdList ready_session [''LIST'', ''private''] Proc_LIST)"
    by (simp add: build_cmdlist_def commands_nth pipeline_defs dc_10000_def ready_session_resets)
  have p: "processLIST demo_env [''LIST'', ''private''] ready_session =
       Inr (False, ready_session
              \<lparr>fileProvider := \<lparr>homeRealDirectory = ''/srv/ftp'', currentRealDirectory = ''/srv/ftp/private''\<rparr>,
               conn_out := conn_out ready_session @
                 [''451 cannot retrieve directory list: open /srv/ftp/private: permission denied'' @ CRLF]\<rparr>)"
    by (simp add: processLIST_def cwd_home cd_private list_private sendStatement_plain)
  show ?thesis
    by (simp add: Handle_tokens_def b Execute_def newCmdList_def p cwd_home cwd_private)
qed

subsection \<open>Closing a data channel\<close>

lemma Close_keeps_port: "dataChannel_Close dc P = Inr (dc', P') \<Longrightarrow> port dc' = port dc"
  by (auto simp: dataChannel_Close_def Let_def dest!: thenF_Inr split: if_splits)

lemma Close_first: "dataChannel_Close dc_10000 pool_one_assigned = Inr (dc_10000\<lparr>killChan := 1\<rparr>, pool_fresh)"
  by (simp add: dataChannel_Close_def dc_10000_def ReleasePort_def pool_one_assigned_def pool_fresh_def)

lemma Close_second:
  "dataChannel_Close (dc_10000\<lparr>killChan := 1\<rparr>) pool_fresh
     = Inr (dc_10000\<lparr>killChan := 2\<rparr>, pool_fresh\<lparr>free := 3\<rparr>)"
  by (simp add: dataChannel_Close_def dc_10000_def ReleasePort_def pool_fresh_def)

text \<open>
  Claim C3 does not hold of the code.  After \<open>Close\<close> of the data channel on port 10000
  the port is back in the pool, but the field \<open>port\<close> is still 10000 and \<open>IsClosed\<close> is
  false (lemma \<open>Close_keeps_port\<close>: \<open>Close\<close> never changes \<open>port\<close>).
\<close>

theorem Close_leaves_port:
  "datachannel_New (\<lambda>p. None) (portassigner_New 10000 10002) False False
     = Inr (Inr dc_10000, pool_one_assigned)
   \<and> dataChannel_Close dc_10000 pool_one_assigned = Inr (dc_10000\<lparr>killChan := 1\<rparr>, pool_fresh)
   \<and> Port (dc_10000\<lparr>killChan := 1\<rparr>) = 10000
   \<and> \<not> IsClosed (dc_10000\<lparr>killChan := 1\<rparr>)
   \<and> cAssigned pool_fresh = [False, False]"
proof -
  have "Port (dc_10000\<lparr>killChan := 1\<rparr>) = 10000" "\<not> IsClosed (dc_10000\<lparr>killChan := 1\<rparr>)"
    "cAssigned pool_fresh = [False, False]"
    by (simp_all add: Port_def IsClosed_def dc_10000_def pool_fresh_def)
  then show ?thesis
    by (simp only: portassigner_New_demo datachannel_New_demo Close_first simp_thms)
qed

text \<open>
  Claim C4 does not hold of the code.  A second \<open>Close\<close> of the same channel releases
  the port again: the pool's \<open>free\<close> counter becomes 3 for a range of 2 ports, and the
  channel's \<open>killChan\<close> holds one value more.
\<close>

theorem Close_twice_releases_twice:
  "dataChannel_Close dc_10000 pool_one_assigned = Inr (dc_10000\<lparr>killChan := 1\<rparr>, pool_fresh)
   \<and> dataChannel_Close (dc_10000\<lparr>killChan := 1\<rparr>) pool_fresh
       = Inr (dc_10000\<lparr>killChan := 2\<rparr>, pool_fresh\<lparr>free := 3\<rparr>)
   \<and> (dc_10000\<lparr>killChan := 2\<rparr>, pool_fresh\<lparr>free := 3\<rparr>) \<noteq> (dc_10000\<lparr>killChan := 1\<rparr>, pool_fresh)
   \<and> free (pool_fresh\<lparr>free := 3\<rparr>) = 3 \<and> free pool_fresh = 2
   \<and> maxPASVPort pool_fresh - minPASVPort pool_fresh = 2"
proof -
  have "(dc_10000\<lparr>killChan := 2\<rparr>, pool_fresh\<lparr>free := 3\<rparr>) \<noteq> (dc_10000\<lparr>killChan := 1\<rparr>, pool_fresh)"
    "free (pool_fresh\<lparr>free := 3\<rparr>) = 3" "free pool_fresh = 2"
    "maxPASVPort pool_fresh - minPASVPort pool_fresh = 2"
    by (simp_all add: pool_fresh_def dc_10000_def)
  then show ?thesis
    by (simp only: Close_first Close_second simp_thms)
qed

end
